theory Spec2Isabelle
  imports Complex_Main
begin

section \<open>Numbers, rounding and errors\<close>

text \<open>
  Python floats are read as real numbers: the arithmetic of the engine is the exact
  arithmetic of its formulas. The exceptions the modelled code can raise are values.
\<close>

datatype py_error =
  ZeroDivisionError | ValueError | KeyError | FileNotFoundError | HTTPException nat

text \<open>
  Python's \<^verbatim>\<open>round(x, ndigits)\<close> gives the multiple of \<open>10 ^ -ndigits\<close> nearest to the
  binary float it is applied to. The float differs from the real value of the formula by
  its representation error, which is what decides when the real value lies exactly
  between two multiples: \<^verbatim>\<open>round(2.675, 2)\<close> is 2.67, the float of 2.675 lying below it.
  The real-number model cannot compute that decision, so it takes it as the parameter
  \<open>tie_up\<close>: away from a tie the parameter is not read.
\<close>

definition round_nearest :: "bool \<Rightarrow> real \<Rightarrow> int" where
  "round_nearest tie_up x =
     (let f = \<lfloor>x\<rfloor>; d = x - of_int f
      in if d < 1 / 2 then f else if 1 / 2 < d then f + 1 else if tie_up then f + 1 else f)"

definition py_round :: "bool \<Rightarrow> real \<Rightarrow> nat \<Rightarrow> real" where
  "py_round tie_up x ndigits = of_int (round_nearest tie_up (x * 10 ^ ndigits)) / 10 ^ ndigits"

text \<open>
  How the floats resolve the ties of a run: a float computation is a function of the
  place in the code and of the values it starts from, so the decision is given per
  rounding site (the name of the rounded entry) and per list of input values.
\<close>

type_synonym float_ties = "string \<Rightarrow> real list \<Rightarrow> bool"

section \<open>Data model\<close>

text \<open>A customer feature dictionary, read with \<^verbatim>\<open>dict.get(key, default)\<close>.\<close>

type_synonym features = "string \<rightharpoonup> real"

definition get :: "features \<Rightarrow> string \<Rightarrow> real \<Rightarrow> real" where
  "get d k dflt = (case d k of None \<Rightarrow> dflt | Some v \<Rightarrow> v)"

text \<open>
  A \<^verbatim>\<open>datetime\<close>, as far as the engine reads it: \<^verbatim>\<open>timestamp.hour\<close> (0 to 23) and the day
  of the week, which \<^verbatim>\<open>timestamp.weekday()\<close> numbers from Monday, 0, to Sunday, 6.
\<close>

datatype day = Monday | Tuesday | Wednesday | Thursday | Friday | Saturday | Sunday

record datetime =
  hour :: int
  day_of_week :: day

fun day_number :: "day \<Rightarrow> int" where
  "day_number Monday = 0"
| "day_number Tuesday = 1"
| "day_number Wednesday = 2"
| "day_number Thursday = 3"
| "day_number Friday = 4"
| "day_number Saturday = 5"
| "day_number Sunday = 6"

definition weekday :: "datetime \<Rightarrow> int" where
  "weekday ts = day_number (day_of_week ts)"

text \<open>The three dictionaries of \<^verbatim>\<open>PRICING_CONFIG\<close> (src/ml/config.py).\<close>

record pricing_weights =
  alpha :: real
  beta :: real
  gamma :: real

record pricing_constraints =
  min_discount :: real
  max_premium :: real
  churn_threshold :: real

record demand_factor_table =
  peak_hours :: "int \<times> int"
  peak_multiplier :: real
  offpeak_multiplier :: real
  weekend_multiplier :: real

definition PRICING_CONFIG_weights :: pricing_weights where
  "PRICING_CONFIG_weights = \<lparr>alpha = 15 / 100, beta = 10 / 100, gamma = 20 / 100\<rparr>"

definition PRICING_CONFIG_constraints :: pricing_constraints where
  "PRICING_CONFIG_constraints =
     \<lparr>min_discount = - (30 / 100), max_premium = 20 / 100, churn_threshold = 70 / 100\<rparr>"

definition PRICING_CONFIG_demand_factors :: demand_factor_table where
  "PRICING_CONFIG_demand_factors =
     \<lparr>peak_hours = (18, 22), peak_multiplier = 15 / 100,
      offpeak_multiplier = - (10 / 100), weekend_multiplier = 5 / 100\<rparr>"


text \<open>
  The churn collaborator (src/ml/models/churn_model.py), as far as the engine uses it:
  the fitted flag and the classifier's probability for a feature dictionary. The
  classifier itself is a library model, so its prediction is a parameter.
\<close>

record churn_predictor =
  churn_is_fitted :: bool
  predict_proba :: "features \<Rightarrow> real"

text \<open>\<^verbatim>\<open>ChurnPredictor.predict_single\<close>, its \<^verbatim>\<open>churn_probability\<close> entry.\<close>

definition churn_predict_single ::
  "float_ties \<Rightarrow> churn_predictor \<Rightarrow> features \<Rightarrow> py_error + real" where
  "churn_predict_single ties m fs =
     (if \<not> churn_is_fitted m then Inl ValueError
      else let probability = predict_proba m fs
           in Inr (py_round (ties ''churn_probability'' [probability]) probability 4))"

text \<open>
  The segmentation collaborator (src/ml/models/segmentation_model.py): the segment
  definitions of \<^verbatim>\<open>SEGMENTATION_CONFIG\<close>, the profiles built from them at training, and the
  cluster prediction of the fitted K-Means model, a parameter.
\<close>

record segment_definition =
  def_name :: string
  def_population :: real
  def_elasticity :: real

definition SEGMENTATION_CONFIG_segment_definitions :: "int \<rightharpoonup> segment_definition" where
  "SEGMENTATION_CONFIG_segment_definitions = map_of
     [(0, \<lparr>def_name = ''Premium Power Users'', def_population = 15 / 100, def_elasticity = - (3 / 10)\<rparr>),
      (1, \<lparr>def_name = ''Price-Conscious'', def_population = 25 / 100, def_elasticity = - (18 / 10)\<rparr>),
      (2, \<lparr>def_name = ''Value-Seekers'', def_population = 30 / 100, def_elasticity = - (12 / 10)\<rparr>),
      (3, \<lparr>def_name = ''Budget Users'', def_population = 20 / 100, def_elasticity = - 2\<rparr>),
      (4, \<lparr>def_name = ''Casual Premium'', def_population = 10 / 100, def_elasticity = - (5 / 10)\<rparr>)]"

text \<open>
  A segment profile is a dictionary; \<^verbatim>\<open>predict_single\<close> reads its \<^verbatim>\<open>price_elasticity\<close>
  entry with a default, so the entry may be missing in a profile read from a file.
\<close>

record segment_profile =
  profile_name :: string
  price_elasticity :: "real option"
  pricing_strategy :: string

record customer_segmentation =
  n_clusters :: nat
  seg_is_fitted :: bool
  segment_profiles :: "int \<rightharpoonup> segment_profile"
  kmeans_predict :: "features \<Rightarrow> int"

definition CustomerSegmentation_init :: "nat \<Rightarrow> customer_segmentation" where
  "CustomerSegmentation_init n =
     \<lparr>n_clusters = n, seg_is_fitted = False, segment_profiles = Map.empty,
      kmeans_predict = (\<lambda>_. 0)\<rparr>"

text \<open>Subscription \<^verbatim>\<open>d[k]\<close> of a dictionary raises \<^verbatim>\<open>KeyError\<close> on a missing key.\<close>

definition subscript :: "('k \<rightharpoonup> 'v) \<Rightarrow> 'k \<Rightarrow> py_error + 'v" where
  "subscript d k = (case d k of None \<Rightarrow> Inl KeyError | Some v \<Rightarrow> Inr v)"

text \<open>
  \<^verbatim>\<open>_match_segment_definition\<close>: the three arguments are the means of the segment's
  \<^verbatim>\<open>plan_price\<close>, \<^verbatim>\<open>avg_monthly_usage_gb\<close> and \<^verbatim>\<open>nps_score\<close> columns.
\<close>

definition match_segment_definition ::
  "real \<times> real \<times> real \<Rightarrow> (int \<rightharpoonup> segment_definition) \<Rightarrow> py_error + segment_definition" where
  "match_segment_definition means segment_defs =
     (case means of (avg_price, avg_usage, avg_nps) \<Rightarrow>
        if avg_price > 1500 \<and> avg_usage > 400 \<and> avg_nps > 7 then subscript segment_defs 0
        else if avg_price < 700 \<and> avg_nps < 6 then subscript segment_defs 3
        else if avg_price > 1200 \<and> avg_usage < 200 then subscript segment_defs 4
        else if avg_nps < 5 then subscript segment_defs 1
        else subscript segment_defs 2)"

definition get_pricing_strategy :: "segment_definition \<Rightarrow> string" where
  "get_pricing_strategy segment_def =
     (if def_name segment_def = ''Premium Power Users''
        then ''Focus on loyalty rewards and exclusive features. Low price sensitivity.''
      else if def_name segment_def = ''Price-Conscious''
        then ''Offer dynamic discounts and promotional pricing. High price sensitivity.''
      else if def_name segment_def = ''Value-Seekers''
        then ''Emphasize value-for-money with tiered pricing options.''
      else if def_name segment_def = ''Budget Users''
        then ''Off-peak offers and basic plans with flexibility.''
      else if def_name segment_def = ''Casual Premium''
        then ''Convenience pricing with simple premium options.''
      else ''Standard pricing strategy'')"

text \<open>
  \<^verbatim>\<open>_create_segment_profiles\<close>: the loop over \<^verbatim>\<open>range(self.n_clusters)\<close>, here over the list
  of cluster ids still to do; \<open>means\<close> gives the column means of each cluster.
\<close>

fun create_segment_profiles ::
  "(int \<Rightarrow> real \<times> real \<times> real) \<Rightarrow> int list \<Rightarrow> (int \<rightharpoonup> segment_profile)
     \<Rightarrow> py_error + (int \<rightharpoonup> segment_profile)" where
  "create_segment_profiles means [] profiles = Inr profiles"
| "create_segment_profiles means (cluster_id # ids) profiles =
     (case match_segment_definition (means cluster_id) SEGMENTATION_CONFIG_segment_definitions of
        Inl e \<Rightarrow> Inl e
      | Inr segment_def \<Rightarrow>
          create_segment_profiles means ids
            (profiles(cluster_id \<mapsto>
               \<lparr>profile_name = def_name segment_def,
                price_elasticity = Some (def_elasticity segment_def),
                pricing_strategy = get_pricing_strategy segment_def\<rparr>)))"

text \<open>
  \<^verbatim>\<open>CustomerSegmentation.train\<close>: \<open>fitted\<close> is the cluster prediction of the K-Means model
  after fitting, \<open>df\<close> the optional data frame, seen through its cluster means.
\<close>

definition train ::
  "customer_segmentation \<Rightarrow> (features \<Rightarrow> int) \<Rightarrow> (int \<Rightarrow> real \<times> real \<times> real) option
     \<Rightarrow> py_error + customer_segmentation" where
  "train m fitted df =
     (let m1 = m\<lparr>kmeans_predict := fitted, seg_is_fitted := True\<rparr>
      in case df of
           None \<Rightarrow> Inr m1
         | Some means \<Rightarrow>
             (case create_segment_profiles means (map int [0 ..< n_clusters m1]) (segment_profiles m1) of
                Inl e \<Rightarrow> Inl e
              | Inr profiles \<Rightarrow> Inr (m1\<lparr>segment_profiles := profiles\<rparr>)))"

text \<open>\<^verbatim>\<open>CustomerSegmentation.predict_single\<close>, its \<^verbatim>\<open>price_elasticity\<close> entry.\<close>

definition segmentation_predict_single :: "customer_segmentation \<Rightarrow> features \<Rightarrow> py_error + real" where
  "segmentation_predict_single m fs =
     (if \<not> seg_is_fitted m then Inl ValueError
      else let segment_id = kmeans_predict m fs
           in case segment_profiles m segment_id of
                None \<Rightarrow> Inr (- 1)
              | Some segment_info \<Rightarrow>
                  (case price_elasticity segment_info of
                     None \<Rightarrow> Inr (- 1)
                   | Some v \<Rightarrow> Inr v))"

text \<open>
  \<^verbatim>\<open>CustomerSegmentation.save\<close> and \<^verbatim>\<open>load\<close>: the file holds the fitted model, the
  profiles and the number of clusters; \<^verbatim>\<open>load\<close> takes the content of the file, \<open>None\<close>
  when there is no file, and marks the collaborator fitted whatever the file holds.
\<close>

record segmentation_file =
  file_model :: "features \<Rightarrow> int"
  file_segment_profiles :: "int \<rightharpoonup> segment_profile"
  file_n_clusters :: nat

definition segmentation_save :: "customer_segmentation \<Rightarrow> py_error + segmentation_file" where
  "segmentation_save m =
     (if \<not> seg_is_fitted m then Inl ValueError
      else Inr \<lparr>file_model = kmeans_predict m,
                file_segment_profiles = segment_profiles m,
                file_n_clusters = n_clusters m\<rparr>)"

definition segmentation_load ::
  "customer_segmentation \<Rightarrow> segmentation_file option \<Rightarrow> py_error + customer_segmentation" where
  "segmentation_load m file =
     (case file of
        None \<Rightarrow> Inl FileNotFoundError
      | Some model_data \<Rightarrow>
          Inr (m\<lparr>kmeans_predict := file_model model_data,
                 segment_profiles := file_segment_profiles model_data,
                 n_clusters := file_n_clusters model_data,
                 seg_is_fitted := True\<rparr>))"


section \<open>The pricing engine (src/ml/models/pricing_model.py)\<close>

text \<open>
  A pricing result. Its \<^verbatim>\<open>"weights"\<close> entry is the engine's own weights dictionary, not a
  copy (\<^verbatim>\<open>"weights": self.weights\<close>), so the record holds the reference; what a reader of
  the result sees there is the dictionary the store holds at that reference.
\<close>

type_synonym ref = nat

record pricing_factors =
  demand_factor :: real
  elasticity :: real
  elasticity_factor :: real
  churn_risk :: real

record pricing_result =
  base_price :: real
  dynamic_price :: real
  price_change :: real
  price_change_percent :: real
  factors :: pricing_factors
  result_weights :: ref
  adjustment :: real
  timestamp :: datetime
  recommendation :: string

text \<open>
  The engine and the part of the world it touches: \<open>store\<close> holds the weights dictionaries
  by reference, \<open>clock\<close> is what the successive calls of \<^verbatim>\<open>datetime.now()\<close> return,
  \<open>now_calls\<close> counts the calls made so far and \<open>float_ties\<close> is how the floats of the
  run resolve decimal ties. The other fields are the attributes of
  \<^verbatim>\<open>DynamicPricingEngine\<close>.
\<close>

record engine =
  store :: "ref \<Rightarrow> pricing_weights"
  clock :: "nat \<Rightarrow> datetime"
  now_calls :: nat
  float_ties :: float_ties
  weights :: ref
  constraints :: pricing_constraints
  demand_factors :: demand_factor_table
  churn_model :: "churn_predictor option"
  segmentation_model :: "customer_segmentation option"
  pricing_history :: "pricing_result list"

text \<open>\<^verbatim>\<open>__init__\<close>: each configuration dictionary is copied; the weights copy is a new object.\<close>

definition DynamicPricingEngine_init :: "(nat \<Rightarrow> datetime) \<Rightarrow> float_ties \<Rightarrow> engine" where
  "DynamicPricingEngine_init clk ties =
     \<lparr>store = (\<lambda>_. PRICING_CONFIG_weights), clock = clk, now_calls = 0,
      float_ties = ties,
      weights = 0,
      constraints = PRICING_CONFIG_constraints,
      demand_factors = PRICING_CONFIG_demand_factors,
      churn_model = None, segmentation_model = None,
      pricing_history = []\<rparr>"

definition set_models ::
  "engine \<Rightarrow> churn_predictor option \<Rightarrow> customer_segmentation option \<Rightarrow> engine" where
  "set_models self churn segmentation =
     self\<lparr>churn_model := churn, segmentation_model := segmentation\<rparr>"

text \<open>\<^verbatim>\<open>datetime.now()\<close>: the next reading of the clock.\<close>

definition datetime_now :: "engine \<Rightarrow> datetime \<times> engine" where
  "datetime_now self = (clock self (now_calls self), self\<lparr>now_calls := Suc (now_calls self)\<rparr>)"

subsection \<open>Demand factor\<close>

definition calculate_demand_factor :: "engine \<Rightarrow> datetime option \<Rightarrow> real \<times> engine" where
  "calculate_demand_factor self timestamp_opt =
     (let (ts, self1) = (case timestamp_opt of None \<Rightarrow> datetime_now self | Some t \<Rightarrow> (t, self));
          is_weekend = (weekday ts \<ge> 5);
          (peak_start, peak_end) = peak_hours (demand_factors self1);
          demand = (if peak_start \<le> hour ts \<and> hour ts \<le> peak_end
                    then peak_multiplier (demand_factors self1)
                    else offpeak_multiplier (demand_factors self1));
          base = demand;
          demand = (if is_weekend then demand + weekend_multiplier (demand_factors self1) else demand);
          tie_up = float_ties self1 ''demand_factor''
                     [base, (if is_weekend then weekend_multiplier (demand_factors self1) else 0)]
      in (py_round tie_up demand 4, self1))"

subsection \<open>Price elasticity\<close>

text \<open>The block of \<^verbatim>\<open>estimate_price_elasticity\<close> after the collaborator test.\<close>

definition elasticity_from_features :: "float_ties \<Rightarrow> features \<Rightarrow> real" where
  "elasticity_from_features ties customer_features =
     (let nps = get customer_features ''nps_score'' 5;
          plan_price = get customer_features ''plan_price'' 1000;
          usage = get customer_features ''avg_monthly_usage_gb'' 200;
          nps_factor = nps / 10;
          price_factor = min (plan_price / 2000) 1;
          usage_factor = min (usage / 500) 1;
          e = - 2 + (nps_factor * (7 / 10)) + (price_factor * (5 / 10)) + (usage_factor * (3 / 10));
          e = max (- (25 / 10)) (min (- (2 / 10)) e)
      in py_round (ties ''elasticity'' [nps, plan_price, usage]) e 2)"

definition estimate_price_elasticity :: "engine \<Rightarrow> features \<Rightarrow> py_error + real" where
  "estimate_price_elasticity self customer_features =
     (case segmentation_model self of
        None \<Rightarrow> Inr (elasticity_from_features (float_ties self) customer_features)
      | Some m \<Rightarrow>
          if seg_is_fitted m then segmentation_predict_single m customer_features
          else Inr (elasticity_from_features (float_ties self) customer_features))"

subsection \<open>Churn risk\<close>

definition normalize_value :: "real \<Rightarrow> real \<Rightarrow> real \<Rightarrow> real" where
  "normalize_value val min_val max_val = max 0 (min 1 ((val - min_val) / (max_val - min_val)))"

text \<open>The block of \<^verbatim>\<open>calculate_churn_risk\<close> after the collaborator test.\<close>

definition churn_risk_from_features :: "float_ties \<Rightarrow> features \<Rightarrow> real" where
  "churn_risk_from_features ties customer_features =
     (let usage_decline = - get customer_features ''usage_change_30d'' 0;
          days_inactive = get customer_features ''days_since_login'' 0;
          payment_issues = get customer_features ''payment_failures_90d'' 0;
          support_tickets = get customer_features ''support_tickets'' 0;
          nps = get customer_features ''nps_score'' 5;
          risk = 25 / 100 * normalize_value usage_decline 0 30
               + 20 / 100 * normalize_value days_inactive 0 30
               + 20 / 100 * normalize_value payment_issues 0 3
               + 15 / 100 * normalize_value support_tickets 0 5
               + 20 / 100 * (1 - nps / 10)
      in py_round (ties ''churn_risk''
                     [usage_decline, days_inactive, payment_issues, support_tickets, nps])
           risk 4)"

definition calculate_churn_risk :: "engine \<Rightarrow> features \<Rightarrow> py_error + real" where
  "calculate_churn_risk self customer_features =
     (case churn_model self of
        None \<Rightarrow> Inr (churn_risk_from_features (float_ties self) customer_features)
      | Some m \<Rightarrow>
          if churn_is_fitted m then churn_predict_single (float_ties self) m customer_features
          else Inr (churn_risk_from_features (float_ties self) customer_features))"

subsection \<open>Dynamic price\<close>

definition generate_recommendation :: "pricing_result \<Rightarrow> string" where
  "generate_recommendation pricing_result =
     (let change_pct = price_change_percent pricing_result
      in if change_pct < - 20
           then ''High retention risk. Apply maximum discount with loyalty offer.''
         else if change_pct < - 10
           then ''Moderate retention risk. Offer promotional discount.''
         else if change_pct < 0
           then ''Slight concern. Consider small incentive to maintain engagement.''
         else if change_pct \<le> 10
           then ''Customer is stable. Standard pricing applies.''
         else ''High-value customer. Premium pricing acceptable.'')"

text \<open>
  The adjustment of \<^verbatim>\<open>calculate_dynamic_price\<close>, from the three factors: the elasticity
  mapped to a discount intensity, the weighted combination, and the constraints applied.
\<close>

definition elasticity_to_factor :: "real \<Rightarrow> real" where
  "elasticity_to_factor e = max 0 (min 1 ((- e - 2 / 10) / (23 / 10)))"

definition combined_adjustment :: "pricing_weights \<Rightarrow> real \<Rightarrow> real \<Rightarrow> real \<Rightarrow> real" where
  "combined_adjustment w demand e_factor churn =
     (let churn_discount = churn * gamma w
      in alpha w * demand + beta w * (- e_factor) + (- churn_discount))"

definition apply_constraints :: "pricing_constraints \<Rightarrow> real \<Rightarrow> real" where
  "apply_constraints c adj = max (min_discount c) (min (max_premium c) adj)"

text \<open>
  \<^verbatim>\<open>calculate_dynamic_price\<close>. The division by \<^verbatim>\<open>base_price\<close> raises when the base price is
  zero. Without a timestamp the clock is read twice: for the demand factor and for the
  timestamp of the result. The five rounded entries start from the same values, the base
  price, the weights, the constraints and the three factors.
\<close>

definition calculate_dynamic_price ::
  "engine \<Rightarrow> real \<Rightarrow> features \<Rightarrow> datetime option \<Rightarrow> py_error + (pricing_result \<times> engine)" where
  "calculate_dynamic_price self bp customer_features timestamp_opt =
     (let (demand, self1) = calculate_demand_factor self timestamp_opt
      in case estimate_price_elasticity self1 customer_features of
           Inl err \<Rightarrow> Inl err
         | Inr e \<Rightarrow>
        (case calculate_churn_risk self1 customer_features of
           Inl err \<Rightarrow> Inl err
         | Inr churn \<Rightarrow>
             let w = store self1 (weights self1);
                 e_factor = elasticity_to_factor e;
                 adj = apply_constraints (constraints self1)
                         (combined_adjustment w demand e_factor churn);
                 price = bp * (1 + adj);
                 price = max (bp * (5 / 10)) price
             in if bp = 0 then Inl ZeroDivisionError
                else
                  let price_change_pct = ((price - bp) / bp) * 100;
                      tie_up = (\<lambda>entry. float_ties self1 entry
                                  [bp, alpha w, beta w, gamma w,
                                   min_discount (constraints self1),
                                   max_premium (constraints self1), demand, e, churn]);
                      (ts, self2) = (case timestamp_opt of
                                       Some t \<Rightarrow> (t, self1)
                                     | None \<Rightarrow> datetime_now self1);
                      result0 = \<lparr>base_price = bp,
                                 dynamic_price = py_round (tie_up ''dynamic_price'') price 2,
                                 price_change = py_round (tie_up ''price_change'') (price - bp) 2,
                                 price_change_percent =
                                   py_round (tie_up ''price_change_percent'') price_change_pct 2,
                                 factors = \<lparr>demand_factor = demand, elasticity = e,
                                            elasticity_factor =
                                              py_round (tie_up ''elasticity_factor'') e_factor 4,
                                            churn_risk = churn\<rparr>,
                                 result_weights = weights self1,
                                 adjustment = py_round (tie_up ''adjustment'') adj 4,
                                 timestamp = ts,
                                 recommendation = []\<rparr>;
                      result = result0\<lparr>recommendation := generate_recommendation result0\<rparr>
                  in Inr (result, self2\<lparr>pricing_history := pricing_history self2 @ [result]\<rparr>)))"


text \<open>What a reader of a result finds under its \<^verbatim>\<open>"weights"\<close> key.\<close>

definition read_result_weights :: "engine \<Rightarrow> pricing_result \<Rightarrow> pricing_weights" where
  "read_result_weights self r = store self (result_weights r)"

subsection \<open>Revenue over a list of customers\<close>

record revenue_result =
  total_base_revenue :: real
  total_dynamic_revenue :: real
  revenue_change :: real
  revenue_change_percent :: real
  customers_processed :: nat
  avg_price_change_pct :: real
  individual_results :: "pricing_result list"

text \<open>
  The \<^verbatim>\<open>for\<close> loop of \<^verbatim>\<open>optimize_revenue\<close> over \<^verbatim>\<open>zip(customers, base_prices)\<close>, with its
  three accumulators; each price is computed without a timestamp.
\<close>

fun optimize_revenue_loop ::
  "engine \<Rightarrow> (features \<times> real) list \<Rightarrow> pricing_result list \<Rightarrow> real \<Rightarrow> real
     \<Rightarrow> py_error + (pricing_result list \<times> real \<times> real \<times> engine)" where
  "optimize_revenue_loop self [] results total_base total_dynamic =
     Inr (results, total_base, total_dynamic, self)"
| "optimize_revenue_loop self ((customer_features, bp) # rest) results total_base total_dynamic =
     (case calculate_dynamic_price self bp customer_features None of
        Inl err \<Rightarrow> Inl err
      | Inr (pricing, self1) \<Rightarrow>
          optimize_revenue_loop self1 rest (results @ [pricing])
            (total_base + bp) (total_dynamic + dynamic_price pricing))"

definition optimize_revenue ::
  "engine \<Rightarrow> features list \<Rightarrow> real list \<Rightarrow> py_error + (revenue_result \<times> engine)" where
  "optimize_revenue self customers base_prices =
     (case optimize_revenue_loop self (zip customers base_prices) [] 0 0 of
        Inl err \<Rightarrow> Inl err
      | Inr (results, total_base, total_dynamic, self1) \<Rightarrow>
          let change = total_dynamic - total_base
          in if total_base = 0 then Inl ZeroDivisionError
             else
               let change_pct = (change / total_base) * 100;
                   tie_up = (\<lambda>entry. float_ties self1 entry
                               (map base_price results @ map dynamic_price results
                                  @ map price_change_percent results))
               in if length results = 0 then Inl ZeroDivisionError
                  else Inr (\<lparr>total_base_revenue = py_round (tie_up ''total_base_revenue'') total_base 2,
                             total_dynamic_revenue =
                               py_round (tie_up ''total_dynamic_revenue'') total_dynamic 2,
                             revenue_change = py_round (tie_up ''revenue_change'') change 2,
                             revenue_change_percent =
                               py_round (tie_up ''revenue_change_percent'') change_pct 2,
                             customers_processed = length customers,
                             avg_price_change_pct =
                               py_round (tie_up ''avg_price_change_pct'')
                                 (sum_list (map price_change_percent results)
                                    / real (length results)) 2,
                             individual_results = results\<rparr>, self1))"

subsection \<open>Weights and history\<close>

text \<open>\<^verbatim>\<open>self.weights[key] = value\<close>: the dictionary is changed in place, in the store.\<close>

definition set_weights_entry :: "engine \<Rightarrow> (pricing_weights \<Rightarrow> pricing_weights) \<Rightarrow> engine" where
  "set_weights_entry self f = self\<lparr>store := (store self)(weights self := f (store self (weights self)))\<rparr>"

definition update_weights :: "engine \<Rightarrow> real option \<Rightarrow> real option \<Rightarrow> real option \<Rightarrow> engine" where
  "update_weights self alpha_opt beta_opt gamma_opt =
     (let self1 = (case alpha_opt of None \<Rightarrow> self
                   | Some a \<Rightarrow> set_weights_entry self (\<lambda>w. w\<lparr>alpha := a\<rparr>));
          self2 = (case beta_opt of None \<Rightarrow> self1
                   | Some b \<Rightarrow> set_weights_entry self1 (\<lambda>w. w\<lparr>beta := b\<rparr>));
          self3 = (case gamma_opt of None \<Rightarrow> self2
                   | Some g \<Rightarrow> set_weights_entry self2 (\<lambda>w. w\<lparr>gamma := g\<rparr>))
      in self3)"

text \<open>
  \<^verbatim>\<open>self.pricing_history[-limit:]\<close>: the last \<open>limit\<close> results for a positive limit;
  a limit of zero gives the whole list, a negative one drops that many from the front.
\<close>

definition get_pricing_history :: "engine \<Rightarrow> int \<Rightarrow> pricing_result list" where
  "get_pricing_history self limit =
     (if limit > 0 then drop (length (pricing_history self) - nat limit) (pricing_history self)
      else drop (nat (- limit)) (pricing_history self))"

subsection \<open>Return on investment\<close>

record roi_projection =
  roi_customers_saved :: int
  roi_revenue_saved :: real
  roi_implementation_cost :: real
  roi_net_benefit :: real
  roi_percent :: real
  roi_payback_months :: real

text \<open>
  \<^verbatim>\<open>calculate_roi_projection\<close>. Three divisions can raise, in this order: by the
  implementation cost, by the lifetime in months, and by the revenue saved per month.
\<close>

definition calculate_roi_projection ::
  "engine \<Rightarrow> int \<Rightarrow> real \<Rightarrow> int \<Rightarrow> real \<Rightarrow> py_error + roi_projection" where
  "calculate_roi_projection self customers_saved avg_revenue_per_user avg_lifetime_months
       implementation_cost =
     (let revenue_saved = of_int customers_saved * avg_revenue_per_user * of_int avg_lifetime_months;
          net_benefit = revenue_saved - implementation_cost;
          tie_up = (\<lambda>entry. float_ties self entry
                      [of_int customers_saved, avg_revenue_per_user,
                       of_int avg_lifetime_months, implementation_cost])
      in if implementation_cost = 0 then Inl ZeroDivisionError
         else
           let roi = (net_benefit / implementation_cost) * 100
           in if avg_lifetime_months = 0 then Inl ZeroDivisionError
              else if revenue_saved / of_int avg_lifetime_months = 0 then Inl ZeroDivisionError
              else Inr \<lparr>roi_customers_saved = customers_saved,
                        roi_revenue_saved = py_round (tie_up ''revenue_saved'') revenue_saved 2,
                        roi_implementation_cost = implementation_cost,
                        roi_net_benefit = py_round (tie_up ''net_benefit'') net_benefit 2,
                        roi_percent = py_round (tie_up ''roi_percent'') roi 2,
                        roi_payback_months =
                          py_round (tie_up ''payback_months'')
                                   (implementation_cost
                                      / (revenue_saved / of_int avg_lifetime_months)) 1\<rparr>)"


text \<open>
  The route \<^verbatim>\<open>/pricing/roi-projection\<close> (src/ml/api/routes/pricing.py): \<^verbatim>\<open>get_engine\<close>
  raises the HTTP error 503 when no engine is set; the projection is called with no
  handler around it.
\<close>

definition get_engine :: "engine option \<Rightarrow> py_error + engine" where
  "get_engine pricing_engine =
     (case pricing_engine of None \<Rightarrow> Inl (HTTPException 503) | Some e \<Rightarrow> Inr e)"

definition calculate_roi ::
  "engine option \<Rightarrow> int \<Rightarrow> real \<Rightarrow> int \<Rightarrow> real \<Rightarrow> py_error + roi_projection" where
  "calculate_roi pricing_engine customers_saved avg_revenue_per_user avg_lifetime_months
       implementation_cost =
     (case get_engine pricing_engine of
        Inl err \<Rightarrow> Inl err
      | Inr e \<Rightarrow>
          calculate_roi_projection e customers_saved avg_revenue_per_user avg_lifetime_months
            implementation_cost)"

subsection \<open>Scenario simulation\<close>

text \<open>
  The timestamps of \<^verbatim>\<open>simulate_pricing_scenarios\<close>: 15 January 2024 is a Monday and
  20 January 2024 a Saturday; an unknown scenario name reads the clock.
\<close>

definition peak_weekday :: datetime where
  "peak_weekday = \<lparr>hour = 20, day_of_week = Monday\<rparr>"

definition offpeak_weekday :: datetime where
  "offpeak_weekday = \<lparr>hour = 10, day_of_week = Monday\<rparr>"

definition peak_weekend :: datetime where
  "peak_weekend = \<lparr>hour = 20, day_of_week = Saturday\<rparr>"

definition offpeak_weekend :: datetime where
  "offpeak_weekend = \<lparr>hour = 10, day_of_week = Saturday\<rparr>"

definition scenario_timestamp :: "engine \<Rightarrow> string \<Rightarrow> datetime \<times> engine" where
  "scenario_timestamp self scenario =
     (if scenario = ''peak_weekday'' then (peak_weekday, self)
      else if scenario = ''offpeak_weekday'' then (offpeak_weekday, self)
      else if scenario = ''peak_weekend'' then (peak_weekend, self)
      else if scenario = ''offpeak_weekend'' then (offpeak_weekend, self)
      else datetime_now self)"

fun simulate_loop ::
  "engine \<Rightarrow> real \<Rightarrow> features \<Rightarrow> string list \<Rightarrow> (string \<rightharpoonup> pricing_result)
     \<Rightarrow> py_error + ((string \<rightharpoonup> pricing_result) \<times> engine)" where
  "simulate_loop self bp customer_features [] results = Inr (results, self)"
| "simulate_loop self bp customer_features (scenario # rest) results =
     (let (ts, self1) = scenario_timestamp self scenario
      in case calculate_dynamic_price self1 bp customer_features (Some ts) of
           Inl err \<Rightarrow> Inl err
         | Inr (r, self2) \<Rightarrow>
             simulate_loop self2 bp customer_features rest (results(scenario \<mapsto> r)))"

definition simulate_pricing_scenarios ::
  "engine \<Rightarrow> real \<Rightarrow> features \<Rightarrow> string list option
     \<Rightarrow> py_error + ((string \<rightharpoonup> pricing_result) \<times> engine)" where
  "simulate_pricing_scenarios self bp customer_features scenarios_opt =
     (let scenarios = (case scenarios_opt of
                         None \<Rightarrow> [''peak_weekday'', ''offpeak_weekday'',
                                  ''peak_weekend'', ''offpeak_weekend'']
                       | Some l \<Rightarrow> l)
      in simulate_loop self bp customer_features scenarios Map.empty)"

subsection \<open>A fresh engine\<close>

text \<open>
  The engine right after \<^verbatim>\<open>DynamicPricingEngine()\<close>, with a clock that stands at Monday
  8 PM and floats that round no tie up; the theorems below are instantiated at it, at
  values that are no ties.
\<close>

definition fresh_engine :: engine where
  "fresh_engine = DynamicPricingEngine_init (\<lambda>_. peak_weekday) (\<lambda>_ _. False)"

text \<open>
  The fresh engine with its constraints dictionary holding a minimum discount above the
  maximum premium, as after \<^verbatim>\<open>engine.constraints.update(min_discount=0.3, max_premium=0.1)\<close>
  or after loading such a configuration.
\<close>

definition inverted_engine :: engine where
  "inverted_engine =
     fresh_engine\<lparr>constraints :=
       \<lparr>min_discount = 3 / 10, max_premium = 1 / 10, churn_threshold = 70 / 100\<rparr>\<rparr>"

text \<open>
  A segmentation file whose one profile carries an elasticity of -3.0, and the engine with
  the collaborator loaded from it attached.
\<close>

definition steep_segmentation_file :: segmentation_file where
  "steep_segmentation_file =
     \<lparr>file_model = (\<lambda>_. 0),
      file_segment_profiles =
        [0 \<mapsto> \<lparr>profile_name = ''Bargain Hunters'', price_elasticity = Some (- 3),
                pricing_strategy = ''Deep discounts''\<rparr>],
      file_n_clusters = 1\<rparr>"

text \<open>
  The sequence of single price calculations that \<^verbatim>\<open>optimize_revenue\<close> is to agree with:
  one call of \<^verbatim>\<open>calculate_dynamic_price\<close> per customer and base price, without a
  timestamp, each on the engine the call before has left.
\<close>

fun price_each ::
  "engine \<Rightarrow> (features \<times> real) list \<Rightarrow> py_error + (pricing_result list \<times> engine)" where
  "price_each self [] = Inr ([], self)"
| "price_each self ((customer_features, bp) # rest) =
     (case calculate_dynamic_price self bp customer_features None of
        Inl err \<Rightarrow> Inl err
      | Inr (r, self1) \<Rightarrow>
          (case price_each self1 rest of
             Inl err \<Rightarrow> Inl err
           | Inr (rs, self2) \<Rightarrow> Inr (r # rs, self2)))"

section \<open>Rounding\<close>

lemma round_nearest_of_int: "round_nearest tie_up (of_int k) = k"
  by (simp add: round_nearest_def)

lemma round_nearest_bounds:
  "x - 1 / 2 \<le> of_int (round_nearest tie_up x)" "of_int (round_nearest tie_up x) \<le> x + 1 / 2"
  unfolding round_nearest_def Let_def by (auto; linarith)+

lemma round_nearest_between:
  assumes "of_int a \<le> x" "x \<le> of_int b"
  shows "a \<le> round_nearest tie_up x \<and> round_nearest tie_up x \<le> b"
proof -
  have lo: "a \<le> \<lfloor>x\<rfloor>" using assms(1) by (simp add: le_floor_iff)
  have fl: "\<lfloor>x\<rfloor> \<le> round_nearest tie_up x"
    unfolding round_nearest_def Let_def by auto
  have hi: "round_nearest tie_up x \<le> b"
  proof (cases "x = of_int \<lfloor>x\<rfloor>")
    case True
    then have "round_nearest tie_up x = \<lfloor>x\<rfloor>"
      unfolding round_nearest_def Let_def by simp
    moreover have "\<lfloor>x\<rfloor> \<le> b" using assms(2) by (simp add: floor_le_iff)
    ultimately show ?thesis by simp
  next
    case False
    have "of_int \<lfloor>x\<rfloor> < x"
      by (rule order.not_eq_order_implies_strict[OF False[symmetric] of_int_floor_le])
    with assms(2) have "of_int \<lfloor>x\<rfloor> < (of_int b :: real)" by linarith
    then have "\<lfloor>x\<rfloor> < b" by simp
    moreover have "round_nearest tie_up x \<le> \<lfloor>x\<rfloor> + 1"
      unfolding round_nearest_def Let_def by auto
    ultimately show ?thesis by linarith
  qed
  from lo fl hi show ?thesis by linarith
qed

lemma py_round_fixed: "py_round tie_up (of_int k / 10 ^ n) n = of_int k / 10 ^ n"
  by (simp add: py_round_def round_nearest_of_int)

lemma py_round_error:
  "x - 1 / (2 * 10 ^ n) \<le> py_round tie_up x n" "py_round tie_up x n \<le> x + 1 / (2 * 10 ^ n)"
proof -
  let ?p = "(10::real) ^ n"
  have p: "0 < ?p" by simp
  have "(x * ?p - 1 / 2) / ?p \<le> of_int (round_nearest tie_up (x * ?p)) / ?p"
    using round_nearest_bounds(1)[of "x * ?p" tie_up] p by (intro divide_right_mono) simp_all
  moreover have "(x * ?p - 1 / 2) / ?p = x - 1 / (2 * ?p)"
    using p by (simp add: field_simps)
  ultimately show "x - 1 / (2 * 10 ^ n) \<le> py_round tie_up x n"
    by (simp add: py_round_def)
  have "of_int (round_nearest tie_up (x * ?p)) / ?p \<le> (x * ?p + 1 / 2) / ?p"
    using round_nearest_bounds(2)[of tie_up "x * ?p"] p by (intro divide_right_mono) simp_all
  moreover have "(x * ?p + 1 / 2) / ?p = x + 1 / (2 * ?p)"
    using p by (simp add: field_simps)
  ultimately show "py_round tie_up x n \<le> x + 1 / (2 * 10 ^ n)"
    by (simp add: py_round_def)
qed

lemma py_round_between:
  assumes "of_int a / 10 ^ n \<le> x" "x \<le> of_int b / 10 ^ n"
  shows "of_int a / 10 ^ n \<le> py_round tie_up x n \<and> py_round tie_up x n \<le> of_int b / 10 ^ n"
proof -
  let ?p = "(10::real) ^ n"
  have p: "0 < ?p" by simp
  have a: "of_int a \<le> x * ?p" using assms(1) p by (simp add: pos_divide_le_eq)
  have b: "x * ?p \<le> of_int b" using assms(2) p by (simp add: pos_le_divide_eq)
  from round_nearest_between[OF a b, of tie_up]
  have "(of_int a :: real) \<le> of_int (round_nearest tie_up (x * ?p))"
    "(of_int (round_nearest tie_up (x * ?p)) :: real) \<le> of_int b"
    by simp_all
  then show ?thesis
    using p by (simp add: py_round_def divide_right_mono)
qed

lemma py_round_unit:
  assumes "0 \<le> x" "x \<le> 1"
  shows "0 \<le> py_round tie_up x n \<and> py_round tie_up x n \<le> 1"
  using py_round_between[of 0 n x "10 ^ n" tie_up] assms by simp

section \<open>Demand factor\<close>

lemma weekend_iff: "5 \<le> weekday ts \<longleftrightarrow> day_of_week ts = Saturday \<or> day_of_week ts = Sunday"
  by (cases "day_of_week ts") (simp_all add: weekday_def)

text \<open>
  C7. For an explicit timestamp the demand factor is the peak multiplier when the hour lies
  in the peak window, both ends included, and the off-peak multiplier otherwise, plus the
  weekend multiplier on a Saturday or Sunday, rounded to 4 decimal places. The value is
  read off the demand-factor table and the timestamp alone; the call neither reads the
  clock nor changes the engine, so a repeated call gives the same factor.
\<close>

theorem calculate_demand_factor_explicit:
  "fst (calculate_demand_factor self (Some ts)) =
     py_round
       (float_ties self ''demand_factor''
          [if fst (peak_hours (demand_factors self)) \<le> hour ts
              \<and> hour ts \<le> snd (peak_hours (demand_factors self))
           then peak_multiplier (demand_factors self)
           else offpeak_multiplier (demand_factors self),
           if day_of_week ts = Saturday \<or> day_of_week ts = Sunday
           then weekend_multiplier (demand_factors self) else 0])
       ((if fst (peak_hours (demand_factors self)) \<le> hour ts
            \<and> hour ts \<le> snd (peak_hours (demand_factors self))
         then peak_multiplier (demand_factors self)
         else offpeak_multiplier (demand_factors self))
        + (if day_of_week ts = Saturday \<or> day_of_week ts = Sunday
           then weekend_multiplier (demand_factors self) else 0)) 4
   \<and> snd (calculate_demand_factor self (Some ts)) = self
   \<and> calculate_demand_factor (snd (calculate_demand_factor self (Some ts))) (Some ts)
       = calculate_demand_factor self (Some ts)"
  by (simp add: calculate_demand_factor_def weekend_iff Let_def split: prod.splits)

section \<open>The result of a price calculation\<close>

lemma estimate_price_elasticity_Inr: "\<exists>e. estimate_price_elasticity self f = Inr e"
  by (auto simp: estimate_price_elasticity_def segmentation_predict_single_def Let_def
      split: option.splits)

lemma calculate_churn_risk_Inr: "\<exists>c. calculate_churn_risk self f = Inr c"
  by (auto simp: calculate_churn_risk_def churn_predict_single_def Let_def split: option.splits)

lemma calculate_demand_factor_state:
  "snd (calculate_demand_factor self ts) =
     self\<lparr>now_calls := (case ts of None \<Rightarrow> Suc (now_calls self) | Some t \<Rightarrow> now_calls self)\<rparr>"
  by (cases ts)
     (simp_all add: calculate_demand_factor_def datetime_now_def Let_def split: prod.splits)

lemma estimate_price_elasticity_now_calls [simp]:
  "estimate_price_elasticity (self\<lparr>now_calls := k\<rparr>) f = estimate_price_elasticity self f"
  by (simp add: estimate_price_elasticity_def split: option.splits)

lemma calculate_churn_risk_now_calls [simp]:
  "calculate_churn_risk (self\<lparr>now_calls := k\<rparr>) f = calculate_churn_risk self f"
  by (simp add: calculate_churn_risk_def split: option.splits)

lemma estimate_price_elasticity_history [simp]:
  "estimate_price_elasticity (self\<lparr>pricing_history := h\<rparr>) f = estimate_price_elasticity self f"
  by (simp add: estimate_price_elasticity_def split: option.splits)

lemma calculate_churn_risk_history [simp]:
  "calculate_churn_risk (self\<lparr>pricing_history := h\<rparr>) f = calculate_churn_risk self f"
  by (simp add: calculate_churn_risk_def split: option.splits)

lemma calculate_dynamic_price_result:
  assumes bp: "bp \<noteq> 0"
    and e: "estimate_price_elasticity self f = Inr e"
    and c: "calculate_churn_risk self f = Inr c"
    and d_def: "d = fst (calculate_demand_factor self ts)"
    and adj_def: "adj = apply_constraints (constraints self)
                    (combined_adjustment (store self (weights self)) d (elasticity_to_factor e) c)"
    and price_def: "price = max (bp * (5 / 10)) (bp * (1 + adj))"
    and k_def: "k = [bp, alpha (store self (weights self)), beta (store self (weights self)),
                     gamma (store self (weights self)), min_discount (constraints self),
                     max_premium (constraints self), d, e, c]"
  shows "\<exists>r self'. calculate_dynamic_price self bp f ts = Inr (r, self')
           \<and> base_price r = bp
           \<and> dynamic_price r = py_round (float_ties self ''dynamic_price'' k) price 2
           \<and> price_change r = py_round (float_ties self ''price_change'' k) (price - bp) 2
           \<and> price_change_percent r =
               py_round (float_ties self ''price_change_percent'' k) (((price - bp) / bp) * 100) 2
           \<and> factors r = \<lparr>demand_factor = d, elasticity = e,
                             elasticity_factor =
                               py_round (float_ties self ''elasticity_factor'' k)
                                 (elasticity_to_factor e) 4,
                             churn_risk = c\<rparr>
           \<and> result_weights r = weights self
           \<and> adjustment r = py_round (float_ties self ''adjustment'' k) adj 4
           \<and> recommendation r = generate_recommendation r
           \<and> self' = self\<lparr>now_calls := (case ts of None \<Rightarrow> Suc (Suc (now_calls self))
                                          | Some t \<Rightarrow> now_calls self),
                         pricing_history := pricing_history self @ [r]\<rparr>"
proof -
  obtain d' self1 where df: "calculate_demand_factor self ts = (d', self1)"
    by (cases "calculate_demand_factor self ts")
  have d': "d' = d" using df by (simp add: d_def)
  have s1: "self1 = self\<lparr>now_calls := (case ts of None \<Rightarrow> Suc (now_calls self) | Some t \<Rightarrow> now_calls self)\<rparr>"
    using calculate_demand_factor_state[of self ts] df by simp
  have e1: "estimate_price_elasticity self1 f = Inr e" by (simp add: s1 e)
  have c1: "calculate_churn_risk self1 f = Inr c" by (simp add: s1 c)
  show ?thesis
    unfolding calculate_dynamic_price_def df
    apply (simp only: prod.case Let_def e1 c1 sum.case bp if_False)
    apply (cases ts)
     apply (simp_all add: s1 d' adj_def price_def k_def datetime_now_def
        generate_recommendation_def Let_def)
    done
qed

lemma calculate_dynamic_price_zero: "calculate_dynamic_price self 0 f ts = Inl ZeroDivisionError"
proof -
  obtain d self1 where df: "calculate_demand_factor self ts = (d, self1)"
    by (cases "calculate_demand_factor self ts")
  obtain e where e: "estimate_price_elasticity self1 f = Inr e"
    using estimate_price_elasticity_Inr by blast
  obtain c where c: "calculate_churn_risk self1 f = Inr c"
    using calculate_churn_risk_Inr by blast
  show ?thesis
    unfolding calculate_dynamic_price_def df
    by (simp only: prod.case Let_def e c sum.case refl if_True)
qed

lemma fresh_engine_fields:
  "store fresh_engine r = PRICING_CONFIG_weights" "weights fresh_engine = 0"
  "constraints fresh_engine = PRICING_CONFIG_constraints"
  "demand_factors fresh_engine = PRICING_CONFIG_demand_factors"
  "churn_model fresh_engine = None" "segmentation_model fresh_engine = None"
  "pricing_history fresh_engine = []" "float_ties fresh_engine = (\<lambda>_ _. False)"
  "clock fresh_engine = (\<lambda>_. peak_weekday)"
  by (simp_all add: fresh_engine_def DynamicPricingEngine_init_def)

text \<open>
  The demand factor of the fresh engine at both ends of the peak window, 6 PM and 10 PM, one
  hour after it, and at a weekend peak.
\<close>

theorem calculate_demand_factor_explicit_witness:
  "fst (calculate_demand_factor fresh_engine (Some \<lparr>hour = 18, day_of_week = Friday\<rparr>)) = 15 / 100
   \<and> fst (calculate_demand_factor fresh_engine (Some \<lparr>hour = 22, day_of_week = Friday\<rparr>)) = 15 / 100
   \<and> fst (calculate_demand_factor fresh_engine (Some \<lparr>hour = 23, day_of_week = Friday\<rparr>)) = - (10 / 100)
   \<and> fst (calculate_demand_factor fresh_engine (Some \<lparr>hour = 20, day_of_week = Sunday\<rparr>)) = 20 / 100"
  using calculate_demand_factor_explicit[of fresh_engine "\<lparr>hour = 18, day_of_week = Friday\<rparr>"]
    calculate_demand_factor_explicit[of fresh_engine "\<lparr>hour = 22, day_of_week = Friday\<rparr>"]
    calculate_demand_factor_explicit[of fresh_engine "\<lparr>hour = 23, day_of_week = Friday\<rparr>"]
    calculate_demand_factor_explicit[of fresh_engine "\<lparr>hour = 20, day_of_week = Sunday\<rparr>"]
  by (simp add: fresh_engine_fields PRICING_CONFIG_demand_factors_def py_round_def
      round_nearest_def Let_def)

lemma fresh_engine_demand_peak_weekday:
  "calculate_demand_factor fresh_engine (Some peak_weekday) = (3 / 20, fresh_engine)"
  by (simp add: calculate_demand_factor_def fresh_engine_fields PRICING_CONFIG_demand_factors_def
      peak_weekday_def weekday_def py_round_def round_nearest_def Let_def)

lemma fresh_engine_demand_now:
  "fst (calculate_demand_factor (fresh_engine\<lparr>now_calls := n, pricing_history := h\<rparr>) None) = 3 / 20"
  by (simp add: calculate_demand_factor_def datetime_now_def fresh_engine_fields
      PRICING_CONFIG_demand_factors_def peak_weekday_def weekday_def py_round_def
      round_nearest_def Let_def)

lemma fresh_engine_elasticity_default:
  "estimate_price_elasticity fresh_engine Map.empty = Inr (- (32 / 25))"
  by (simp add: estimate_price_elasticity_def fresh_engine_fields elasticity_from_features_def
      get_def py_round_def round_nearest_def Let_def)

lemma fresh_engine_churn_default:
  "calculate_churn_risk fresh_engine Map.empty = Inr (1 / 10)"
  by (simp add: calculate_churn_risk_def fresh_engine_fields churn_risk_from_features_def get_def
      normalize_value_def py_round_def round_nearest_def Let_def)

lemma fresh_engine_adjustment_default:
  "apply_constraints PRICING_CONFIG_constraints
     (combined_adjustment PRICING_CONFIG_weights (3 / 20) (elasticity_to_factor (- (32 / 25))) (1 / 10))
     = - (409 / 9200)"
  by (simp add: apply_constraints_def combined_adjustment_def elasticity_to_factor_def
      PRICING_CONFIG_constraints_def PRICING_CONFIG_weights_def Let_def)

section \<open>Adjustment and price\<close>

lemma adjustment_formula:
  "apply_constraints cs (combined_adjustment w d (elasticity_to_factor e) c) =
     max (min_discount cs) (min (max_premium cs)
       (alpha w * d - beta w * max 0 (min 1 ((- e - 2 / 10) / (23 / 10))) - gamma w * c))"
  by (simp add: apply_constraints_def combined_adjustment_def elasticity_to_factor_def Let_def
      algebra_simps)

lemma apply_constraints_bounds:
  "min_discount cs \<le> apply_constraints cs x"
  "min_discount cs \<le> max_premium cs \<Longrightarrow> apply_constraints cs x \<le> max_premium cs"
  by (simp_all add: apply_constraints_def)

lemma calculate_dynamic_price_applied:
  assumes "bp \<noteq> 0"
  shows "\<exists>r self' adj.
           calculate_dynamic_price self bp f ts = Inr (r, self')
         \<and> demand_factor (factors r) = fst (calculate_demand_factor self ts)
         \<and> estimate_price_elasticity self f = Inr (elasticity (factors r))
         \<and> calculate_churn_risk self f = Inr (churn_risk (factors r))
         \<and> adj = max (min_discount (constraints self)) (min (max_premium (constraints self))
                    (alpha (store self (weights self)) * demand_factor (factors r)
                     - beta (store self (weights self))
                         * max 0 (min 1 ((- elasticity (factors r) - 2 / 10) / (23 / 10)))
                     - gamma (store self (weights self)) * churn_risk (factors r)))
         \<and> (\<exists>tie_up. adjustment r = py_round tie_up adj 4)
         \<and> (\<exists>tie_up. dynamic_price r = py_round tie_up (max (bp * (5 / 10)) (bp * (1 + adj))) 2)"
proof -
  obtain e where e: "estimate_price_elasticity self f = Inr e"
    using estimate_price_elasticity_Inr by blast
  obtain c where c: "calculate_churn_risk self f = Inr c"
    using calculate_churn_risk_Inr by blast
  let ?d = "fst (calculate_demand_factor self ts)"
  let ?adj = "apply_constraints (constraints self)
      (combined_adjustment (store self (weights self)) ?d (elasticity_to_factor e) c)"
  let ?k = "[bp, alpha (store self (weights self)), beta (store self (weights self)),
             gamma (store self (weights self)), min_discount (constraints self),
             max_premium (constraints self), ?d, e, c]"
  from calculate_dynamic_price_result[OF assms e c refl refl refl refl, of ts]
  obtain r self' where r: "calculate_dynamic_price self bp f ts = Inr (r, self')"
    "dynamic_price r = py_round (float_ties self ''dynamic_price'' ?k)
       (max (bp * (5 / 10)) (bp * (1 + ?adj))) 2"
    "factors r = \<lparr>demand_factor = ?d, elasticity = e,
        elasticity_factor = py_round (float_ties self ''elasticity_factor'' ?k)
          (elasticity_to_factor e) 4, churn_risk = c\<rparr>"
    "adjustment r = py_round (float_ties self ''adjustment'' ?k) ?adj 4"
    by blast
  have f: "demand_factor (factors r) = ?d" "elasticity (factors r) = e" "churn_risk (factors r) = c"
    by (simp_all add: r(3))
  have a: "\<exists>tie_up. adjustment r = py_round tie_up ?adj 4" using r(4) by blast
  have p: "\<exists>tie_up. dynamic_price r = py_round tie_up (max (bp * (5 / 10)) (bp * (1 + ?adj))) 2"
    using r(2) by blast
  show ?thesis
    apply (rule exI[of _ r], rule exI[of _ self'], rule exI[of _ ?adj])
    apply (intro conjI)
          apply (rule r(1))
         apply (rule f(1))
        apply (simp add: f e)
       apply (simp add: f c)
      apply (simp add: adjustment_formula f)
     apply (rule a)
    apply (rule p)
    done
qed

text \<open>
  C1, as the code has it. A call of \<^verbatim>\<open>calculate_dynamic_price\<close> maps the elasticity to
  \<open>max 0 (min 1 ((- elasticity - 0.2) / 2.3))\<close>, combines
  \<open>alpha * demand_factor - beta * elasticity_factor - gamma * churn_risk\<close> and clamps the
  sum with \<open>max min_discount (min max_premium _)\<close>. When the constraints have
  \<open>min_discount \<le> max_premium\<close> the adjustment so applied lies between the two bounds,
  whatever the base price, the features, the timestamp, the weights and the factors are.
  At a base price of zero the call then raises, the percentage dividing by the base
  price; at every other base price it returns, and the result records the adjustment
  rounded to 4 places and the price computed from the unrounded value.
\<close>

theorem calculate_dynamic_price_adjustment:
  assumes "min_discount (constraints self) \<le> max_premium (constraints self)"
  shows "\<exists>d e c adj.
           d = fst (calculate_demand_factor self ts)
         \<and> estimate_price_elasticity self f = Inr e
         \<and> calculate_churn_risk self f = Inr c
         \<and> adj = max (min_discount (constraints self)) (min (max_premium (constraints self))
                    (alpha (store self (weights self)) * d
                     - beta (store self (weights self)) * max 0 (min 1 ((- e - 2 / 10) / (23 / 10)))
                     - gamma (store self (weights self)) * c))
         \<and> min_discount (constraints self) \<le> adj \<and> adj \<le> max_premium (constraints self)
         \<and> (if bp = 0 then calculate_dynamic_price self bp f ts = Inl ZeroDivisionError
             else (\<exists>r self'.
                     calculate_dynamic_price self bp f ts = Inr (r, self')
                   \<and> demand_factor (factors r) = d \<and> elasticity (factors r) = e
                   \<and> churn_risk (factors r) = c
                   \<and> (\<exists>tie_up. adjustment r = py_round tie_up adj 4)
                   \<and> (\<exists>tie_up. dynamic_price r
                                  = py_round tie_up (max (bp * (5 / 10)) (bp * (1 + adj))) 2)))"
proof -
  obtain e where e: "estimate_price_elasticity self f = Inr e"
    using estimate_price_elasticity_Inr by blast
  obtain c where c: "calculate_churn_risk self f = Inr c"
    using calculate_churn_risk_Inr by blast
  let ?d = "fst (calculate_demand_factor self ts)"
  let ?adj = "apply_constraints (constraints self)
      (combined_adjustment (store self (weights self)) ?d (elasticity_to_factor e) c)"
  let ?k = "[bp, alpha (store self (weights self)), beta (store self (weights self)),
             gamma (store self (weights self)), min_discount (constraints self),
             max_premium (constraints self), ?d, e, c]"
  have call: "if bp = 0 then calculate_dynamic_price self bp f ts = Inl ZeroDivisionError
             else (\<exists>r self'.
                     calculate_dynamic_price self bp f ts = Inr (r, self')
                   \<and> demand_factor (factors r) = ?d \<and> elasticity (factors r) = e
                   \<and> churn_risk (factors r) = c
                   \<and> (\<exists>tie_up. adjustment r = py_round tie_up ?adj 4)
                   \<and> (\<exists>tie_up. dynamic_price r
                                  = py_round tie_up (max (bp * (5 / 10)) (bp * (1 + ?adj))) 2))"
  proof (cases "bp = 0")
    case True
    then show ?thesis by (simp add: calculate_dynamic_price_zero)
  next
    case False
    from calculate_dynamic_price_result[OF False e c refl refl refl refl, of ts]
    obtain r self' where r: "calculate_dynamic_price self bp f ts = Inr (r, self')"
      "dynamic_price r = py_round (float_ties self ''dynamic_price'' ?k)
         (max (bp * (5 / 10)) (bp * (1 + ?adj))) 2"
      "factors r = \<lparr>demand_factor = ?d, elasticity = e,
          elasticity_factor = py_round (float_ties self ''elasticity_factor'' ?k)
            (elasticity_to_factor e) 4, churn_risk = c\<rparr>"
      "adjustment r = py_round (float_ties self ''adjustment'' ?k) ?adj 4"
      by blast
    have f: "demand_factor (factors r) = ?d" "elasticity (factors r) = e"
      "churn_risk (factors r) = c"
      by (simp_all add: r(3))
    have a: "\<exists>tie_up. adjustment r = py_round tie_up ?adj 4" using r(4) by blast
    have p: "\<exists>tie_up. dynamic_price r = py_round tie_up (max (bp * (5 / 10)) (bp * (1 + ?adj))) 2"
      using r(2) by blast
    from r(1) f a p have "\<exists>r self'.
                     calculate_dynamic_price self bp f ts = Inr (r, self')
                   \<and> demand_factor (factors r) = ?d \<and> elasticity (factors r) = e
                   \<and> churn_risk (factors r) = c
                   \<and> (\<exists>tie_up. adjustment r = py_round tie_up ?adj 4)
                   \<and> (\<exists>tie_up. dynamic_price r
                                  = py_round tie_up (max (bp * (5 / 10)) (bp * (1 + ?adj))) 2)"
      by blast
    with False show ?thesis by (simp only: if_False)
  qed
  show ?thesis
    apply (rule exI[of _ ?d], rule exI[of _ e], rule exI[of _ c], rule exI[of _ ?adj])
    apply (intro conjI)
          apply (rule refl)
         apply (rule e)
        apply (rule c)
       apply (rule adjustment_formula)
      apply (rule apply_constraints_bounds(1))
     apply (rule apply_constraints_bounds(2)[OF assms])
    apply (rule call)
    done
qed

text \<open>The fresh engine at a base price of 999, default features, Monday 8 PM.\<close>

theorem calculate_dynamic_price_adjustment_witness:
  "min_discount (constraints fresh_engine) \<le> max_premium (constraints fresh_engine)
   \<and> (\<exists>adj r self' tie_up.
          min_discount (constraints fresh_engine) \<le> adj
        \<and> adj \<le> max_premium (constraints fresh_engine)
        \<and> calculate_dynamic_price fresh_engine 999 Map.empty (Some peak_weekday) = Inr (r, self')
        \<and> adjustment r = py_round tie_up adj 4)"
proof -
  have h: "min_discount (constraints fresh_engine) \<le> max_premium (constraints fresh_engine)"
    by (simp add: fresh_engine_fields PRICING_CONFIG_constraints_def)
  from calculate_dynamic_price_adjustment[OF h, of "Some peak_weekday" Map.empty 999] h
  show ?thesis by (simp only: if_False numeral_neq_zero) blast
qed

lemma inverted_engine_fields:
  "store inverted_engine r = PRICING_CONFIG_weights" "weights inverted_engine = 0"
  "constraints inverted_engine
     = \<lparr>min_discount = 3 / 10, max_premium = 1 / 10, churn_threshold = 70 / 100\<rparr>"
  "float_ties inverted_engine = (\<lambda>_ _. False)"
  by (simp_all add: inverted_engine_def fresh_engine_fields)

lemma inverted_engine_factors:
  "fst (calculate_demand_factor inverted_engine (Some peak_weekday)) = 3 / 20"
  "estimate_price_elasticity inverted_engine Map.empty = Inr (- (32 / 25))"
  "calculate_churn_risk inverted_engine Map.empty = Inr (1 / 10)"
proof -
  have "calculate_demand_factor inverted_engine (Some peak_weekday)
          = (fst (calculate_demand_factor fresh_engine (Some peak_weekday)), inverted_engine)"
    by (simp add: calculate_demand_factor_def inverted_engine_def Let_def split: prod.splits)
  then show "fst (calculate_demand_factor inverted_engine (Some peak_weekday)) = 3 / 20"
    by (simp add: fresh_engine_demand_peak_weekday)
  have "estimate_price_elasticity inverted_engine Map.empty
          = estimate_price_elasticity fresh_engine Map.empty"
    by (simp add: estimate_price_elasticity_def inverted_engine_def split: option.splits)
  then show "estimate_price_elasticity inverted_engine Map.empty = Inr (- (32 / 25))"
    by (simp add: fresh_engine_elasticity_default)
  have "calculate_churn_risk inverted_engine Map.empty
          = calculate_churn_risk fresh_engine Map.empty"
    by (simp add: calculate_churn_risk_def inverted_engine_def split: option.splits)
  then show "calculate_churn_risk inverted_engine Map.empty = Inr (1 / 10)"
    by (simp add: fresh_engine_churn_default)
qed

lemma inverted_engine_price:
  "\<exists>r self'. calculate_dynamic_price inverted_engine 999 Map.empty (Some peak_weekday) = Inr (r, self')
     \<and> adjustment r = 3 / 10 \<and> dynamic_price r = 12987 / 10"
proof -
  have bp: "(999 :: real) \<noteq> 0" by simp
  have d: "3 / 20 = fst (calculate_demand_factor inverted_engine (Some peak_weekday))"
    by (simp add: inverted_engine_factors)
  have a: "3 / 10 = apply_constraints (constraints inverted_engine)
       (combined_adjustment (store inverted_engine (weights inverted_engine)) (3 / 20)
          (elasticity_to_factor (- (32 / 25))) (1 / 10))"
    by (simp add: inverted_engine_fields apply_constraints_def)
  have p: "(12987 / 10 :: real) = max (999 * (5 / 10)) (999 * (1 + 3 / 10))"
    by simp
  have z: "py_round tie_up (12987 / 10) 2 = 12987 / 10" "py_round tie_up (3 / 10) 4 = 3 / 10"
    for tie_up
    by (simp_all add: py_round_def round_nearest_def Let_def)
  from calculate_dynamic_price_result[OF bp inverted_engine_factors(2)
      inverted_engine_factors(3) d a p refl]
  show ?thesis unfolding z by blast
qed

text \<open>
  C1 as stated fails for a constraint configuration with the minimum discount above the
  maximum premium: with \<open>min_discount = 0.3\<close> and \<open>max_premium = 0.1\<close> the clamp returns
  0.3, the adjustment applied and recorded is 0.3, above the maximum premium, and a base
  price of 999 is priced at 1298.70.
\<close>

theorem adjustment_above_max_premium:
  "map_sum id (adjustment \<circ> fst)
     (calculate_dynamic_price inverted_engine 999 Map.empty (Some peak_weekday)) = Inr (3 / 10)
   \<and> map_sum id (dynamic_price \<circ> fst)
     (calculate_dynamic_price inverted_engine 999 Map.empty (Some peak_weekday)) = Inr (12987 / 10)
   \<and> max_premium (constraints inverted_engine) = 1 / 10
   \<and> (1 / 10 :: real) < 3 / 10"
  using inverted_engine_price by (auto simp: inverted_engine_fields)

text \<open>
  C2, as the code has it. For a base price above zero the call returns, and the
  \<^verbatim>\<open>dynamic_price\<close> it returns is \<open>base_price * (1 + adjustment)\<close> floored at
  \<open>0.5 * base_price\<close> and then rounded to 2 decimal places. The price before rounding is
  at least half the base price; the returned one is at least half the base price less
  0.005.
\<close>

theorem calculate_dynamic_price_floor:
  assumes "0 < bp"
  shows "\<exists>r self' adj.
           calculate_dynamic_price self bp f ts = Inr (r, self')
         \<and> adj = max (min_discount (constraints self)) (min (max_premium (constraints self))
                    (alpha (store self (weights self)) * demand_factor (factors r)
                     - beta (store self (weights self))
                         * max 0 (min 1 ((- elasticity (factors r) - 2 / 10) / (23 / 10)))
                     - gamma (store self (weights self)) * churn_risk (factors r)))
         \<and> (\<exists>tie_up. adjustment r = py_round tie_up adj 4)
         \<and> (\<exists>tie_up. dynamic_price r = py_round tie_up (max (bp * (5 / 10)) (bp * (1 + adj))) 2)
         \<and> bp * (5 / 10) \<le> max (bp * (5 / 10)) (bp * (1 + adj))
         \<and> bp * (5 / 10) - 5 / 1000 \<le> dynamic_price r"
proof -
  from assms have "bp \<noteq> 0" by simp
  from calculate_dynamic_price_applied[OF this, of self f ts]
  obtain r self' adj tie_up where r:
    "calculate_dynamic_price self bp f ts = Inr (r, self')"
    "adj = max (min_discount (constraints self)) (min (max_premium (constraints self))
                    (alpha (store self (weights self)) * demand_factor (factors r)
                     - beta (store self (weights self))
                         * max 0 (min 1 ((- elasticity (factors r) - 2 / 10) / (23 / 10)))
                     - gamma (store self (weights self)) * churn_risk (factors r)))"
    "\<exists>tie_up. adjustment r = py_round tie_up adj 4"
    "dynamic_price r = py_round tie_up (max (bp * (5 / 10)) (bp * (1 + adj))) 2"
    by blast
  let ?p = "max (bp * (5 / 10)) (bp * (1 + adj))"
  have fl: "bp * (5 / 10) \<le> ?p" by simp
  have "?p - 1 / (2 * 10 ^ 2) \<le> dynamic_price r"
    unfolding r(4) by (rule py_round_error(1))
  with fl have er: "bp * (5 / 10) - 5 / 1000 \<le> dynamic_price r" by simp
  have p: "\<exists>tie_up. dynamic_price r = py_round tie_up ?p 2" using r(4) by blast
  from r(1,2,3) p fl er show ?thesis by blast
qed

theorem calculate_dynamic_price_floor_witness:
  "(0 :: real) < 999
   \<and> (\<exists>r self'.
          calculate_dynamic_price fresh_engine 999 Map.empty (Some peak_weekday) = Inr (r, self')
        \<and> 999 * (5 / 10) - 5 / 1000 \<le> dynamic_price r)"
proof -
  have h: "(0 :: real) < 999" by simp
  from calculate_dynamic_price_floor[OF h, of fresh_engine Map.empty "Some peak_weekday"] h
  show ?thesis by blast
qed

text \<open>
  C2 as stated fails by the rounding: at a base price of 0.005 the fresh engine (default
  features, Monday 8 PM) prices at 0.0047..., returns 0.0, and half the base price is
  0.0025.
\<close>

lemma fresh_engine_tiny_price:
  "\<exists>r self'. calculate_dynamic_price fresh_engine (5 / 1000) Map.empty (Some peak_weekday) = Inr (r, self')
     \<and> dynamic_price r = 0"
proof -
  have bp: "(5 / 1000 :: real) \<noteq> 0" by simp
  have d: "3 / 20 = fst (calculate_demand_factor fresh_engine (Some peak_weekday))"
    by (simp add: fresh_engine_demand_peak_weekday)
  have a: "- (409 / 9200) = apply_constraints (constraints fresh_engine)
       (combined_adjustment (store fresh_engine (weights fresh_engine)) (3 / 20)
          (elasticity_to_factor (- (32 / 25))) (1 / 10))"
    by (simp only: fresh_engine_fields fresh_engine_adjustment_default)
  have p: "(8791 / 1840000 :: real) = max (5 / 1000 * (5 / 10)) (5 / 1000 * (1 + - (409 / 9200)))"
    by simp
  have z: "py_round tie_up (8791 / 1840000) 2 = 0" for tie_up
    by (simp add: py_round_def round_nearest_def Let_def)
  from calculate_dynamic_price_result[OF bp fresh_engine_elasticity_default
      fresh_engine_churn_default d a p refl]
  show ?thesis unfolding z by blast
qed

theorem dynamic_price_below_half_base:
  "map_sum id (dynamic_price \<circ> fst)
     (calculate_dynamic_price fresh_engine (5 / 1000) Map.empty (Some peak_weekday)) = Inr 0
   \<and> (0 :: real) < 5 / 1000
   \<and> (0 :: real) < 5 / 10 * (5 / 1000)"
  using fresh_engine_tiny_price by auto

section \<open>Recommendation\<close>

text \<open>
  C8. A call at a base price of zero raises; every other call returns, and its result
  carries the recommendation fixed by its \<^verbatim>\<open>price_change_percent\<close> alone: below -20 the
  maximum discount with loyalty offer, in [-20, -10) the promotional discount, in
  [-10, 0) the small incentive, in [0, 10] standard pricing, above 10 premium pricing.
\<close>

theorem recommendation_thresholds:
  "if bp = 0 then calculate_dynamic_price self bp f ts = Inl ZeroDivisionError
   else (\<exists>r self'.
           calculate_dynamic_price self bp f ts = Inr (r, self')
         \<and> recommendation r =
             (if price_change_percent r < - 20
                then ''High retention risk. Apply maximum discount with loyalty offer.''
              else if - 20 \<le> price_change_percent r \<and> price_change_percent r < - 10
                then ''Moderate retention risk. Offer promotional discount.''
              else if - 10 \<le> price_change_percent r \<and> price_change_percent r < 0
                then ''Slight concern. Consider small incentive to maintain engagement.''
              else if 0 \<le> price_change_percent r \<and> price_change_percent r \<le> 10
                then ''Customer is stable. Standard pricing applies.''
              else ''High-value customer. Premium pricing acceptable.''))"
proof (cases "bp = 0")
  case True
  then show ?thesis by (simp add: calculate_dynamic_price_zero)
next
  case False
  obtain e where e: "estimate_price_elasticity self f = Inr e"
    using estimate_price_elasticity_Inr by blast
  obtain c where c: "calculate_churn_risk self f = Inr c"
    using calculate_churn_risk_Inr by blast
  from calculate_dynamic_price_result[OF False e c refl refl refl refl, of ts]
  obtain r self' where r: "calculate_dynamic_price self bp f ts = Inr (r, self')"
    "recommendation r = generate_recommendation r"
    by blast
  have "generate_recommendation r =
             (if price_change_percent r < - 20
                then ''High retention risk. Apply maximum discount with loyalty offer.''
              else if - 20 \<le> price_change_percent r \<and> price_change_percent r < - 10
                then ''Moderate retention risk. Offer promotional discount.''
              else if - 10 \<le> price_change_percent r \<and> price_change_percent r < 0
                then ''Slight concern. Consider small incentive to maintain engagement.''
              else if 0 \<le> price_change_percent r \<and> price_change_percent r \<le> 10
                then ''Customer is stable. Standard pricing applies.''
              else ''High-value customer. Premium pricing acceptable.'')"
    unfolding generate_recommendation_def Let_def
    by (simp only: not_less split: if_splits) auto
  with r have "\<exists>r self'.
           calculate_dynamic_price self bp f ts = Inr (r, self')
         \<and> recommendation r =
             (if price_change_percent r < - 20
                then ''High retention risk. Apply maximum discount with loyalty offer.''
              else if - 20 \<le> price_change_percent r \<and> price_change_percent r < - 10
                then ''Moderate retention risk. Offer promotional discount.''
              else if - 10 \<le> price_change_percent r \<and> price_change_percent r < 0
                then ''Slight concern. Consider small incentive to maintain engagement.''
              else if 0 \<le> price_change_percent r \<and> price_change_percent r \<le> 10
                then ''Customer is stable. Standard pricing applies.''
              else ''High-value customer. Premium pricing acceptable.'')"
    by (intro exI conjI) (rule r(1), simp)
  with False show ?thesis by (simp only: if_False)
qed

text \<open>The fresh engine at a base price of 999, default features, Monday 8 PM.\<close>

theorem recommendation_thresholds_witness:
  "\<exists>r self'.
      calculate_dynamic_price fresh_engine 999 Map.empty (Some peak_weekday) = Inr (r, self')
    \<and> recommendation r =
             (if price_change_percent r < - 20
                then ''High retention risk. Apply maximum discount with loyalty offer.''
              else if - 20 \<le> price_change_percent r \<and> price_change_percent r < - 10
                then ''Moderate retention risk. Offer promotional discount.''
              else if - 10 \<le> price_change_percent r \<and> price_change_percent r < 0
                then ''Slight concern. Consider small incentive to maintain engagement.''
              else if 0 \<le> price_change_percent r \<and> price_change_percent r \<le> 10
                then ''Customer is stable. Standard pricing applies.''
              else ''High-value customer. Premium pricing acceptable.'')"
  using recommendation_thresholds[of 999 fresh_engine Map.empty "Some peak_weekday"]
  by (simp only: if_False numeral_neq_zero)

section \<open>Churn risk\<close>

lemma normalize_value_range: "0 \<le> normalize_value v a b" "normalize_value v a b \<le> 1"
  by (simp_all add: normalize_value_def)

lemma weighted_unit:
  fixes a b c d n :: real
  assumes "0 \<le> a" "a \<le> 1" "0 \<le> b" "b \<le> 1" "0 \<le> c" "c \<le> 1" "0 \<le> d" "d \<le> 1"
    "0 \<le> n" "n \<le> 1"
  shows "0 \<le> 25 / 100 * a + 20 / 100 * b + 20 / 100 * c + 15 / 100 * d + 20 / 100 * n"
    and "25 / 100 * a + 20 / 100 * b + 20 / 100 * c + 15 / 100 * d + 20 / 100 * n \<le> 1"
  using assms by simp_all

text \<open>
  With no fitted churn collaborator the churn risk is the weighted sum of the four clamped
  indicators and of \<open>1 - nps / 10\<close>, rounded to 4 places.
\<close>

lemma calculate_churn_risk_fallback:
  assumes "case churn_model self of None \<Rightarrow> True | Some m \<Rightarrow> \<not> churn_is_fitted m"
  shows "\<exists>tie_up. calculate_churn_risk self f =
           Inr (py_round tie_up
                  (25 / 100 * max 0 (min 1 (- get f ''usage_change_30d'' 0 / 30))
                 + 20 / 100 * max 0 (min 1 (get f ''days_since_login'' 0 / 30))
                 + 20 / 100 * max 0 (min 1 (get f ''payment_failures_90d'' 0 / 3))
                 + 15 / 100 * max 0 (min 1 (get f ''support_tickets'' 0 / 5))
                 + 20 / 100 * (1 - get f ''nps_score'' 5 / 10)) 4)"
proof -
  have fb: "calculate_churn_risk self f = Inr (churn_risk_from_features (float_ties self) f)"
    using assms by (simp add: calculate_churn_risk_def split: option.splits)
  show ?thesis
    unfolding fb churn_risk_from_features_def normalize_value_def Let_def
    by (rule exI) simp
qed

text \<open>
  The four indicators are clamped to [0, 1]; the NPS term is not. For an NPS score in
  [0, 10] the risk lies in [0, 1].
\<close>

lemma churn_risk_from_features_range:
  assumes "0 \<le> get f ''nps_score'' 5" "get f ''nps_score'' 5 \<le> 10"
  shows "0 \<le> churn_risk_from_features ties f \<and> churn_risk_from_features ties f \<le> 1"
proof -
  let ?a = "normalize_value (- get f ''usage_change_30d'' 0) 0 30"
  let ?b = "normalize_value (get f ''days_since_login'' 0) 0 30"
  let ?c = "normalize_value (get f ''payment_failures_90d'' 0) 0 3"
  let ?d = "normalize_value (get f ''support_tickets'' 0) 0 5"
  let ?n = "1 - get f ''nps_score'' 5 / 10"
  let ?risk = "25 / 100 * ?a + 20 / 100 * ?b + 20 / 100 * ?c + 15 / 100 * ?d + 20 / 100 * ?n"
  have n: "0 \<le> ?n" "?n \<le> 1" using assms by simp_all
  note r = normalize_value_range[of "- get f ''usage_change_30d'' 0" 0 30]
      normalize_value_range[of "get f ''days_since_login'' 0" 0 30]
      normalize_value_range[of "get f ''payment_failures_90d'' 0" 0 3]
      normalize_value_range[of "get f ''support_tickets'' 0" 0 5]
  have lo: "0 \<le> ?risk" using r n by (rule weighted_unit)
  have hi: "?risk \<le> 1" using r n by (rule weighted_unit)
  from py_round_unit[OF lo hi]
  show ?thesis by (simp add: churn_risk_from_features_def Let_def)
qed

text \<open>
  C3. The fallback's own documentation gives the churn risk as a value from 0 to 1, and
  four of its five terms are clamped to that end; the NPS term \<open>0.20 * (1 - nps / 10)\<close>
  is not. A feature map with an NPS score of 20 and nothing else gives a churn risk of
  -0.2.
\<close>

theorem churn_risk_negative:
  "calculate_churn_risk fresh_engine [''nps_score'' \<mapsto> 20] = Inr (- (1 / 5))
   \<and> - (1 / 5) < (0 :: real)"
  by (simp add: calculate_churn_risk_def fresh_engine_fields churn_risk_from_features_def get_def
      normalize_value_def py_round_def round_nearest_def Let_def)

section \<open>Price elasticity\<close>

lemma elasticity_from_features_range:
  "- (25 / 10) \<le> elasticity_from_features ties f \<and> elasticity_from_features ties f \<le> - (2 / 10)"
proof -
  let ?x = "max (- (25 / 10)) (min (- (2 / 10))
       (- 2 + get f ''nps_score'' 5 / 10 * (7 / 10)
            + min (get f ''plan_price'' 1000 / 2000) 1 * (5 / 10)
            + min (get f ''avg_monthly_usage_gb'' 200 / 500) 1 * (3 / 10)))"
  have "of_int (- 250) / 10 ^ 2 \<le> ?x" "?x \<le> of_int (- 20) / 10 ^ 2" by simp_all
  from py_round_between[OF this]
  show ?thesis by (simp add: elasticity_from_features_def Let_def)
qed

lemma match_segment_definition_key:
  "\<exists>j \<in> {0, 1, 2, 3, 4}. match_segment_definition means segment_defs = subscript segment_defs j"
  by (cases means) (simp add: match_segment_definition_def)

lemma subscript_config:
  assumes "j \<in> {0, 1, 2, 3, 4}"
  shows "\<exists>d. subscript SEGMENTATION_CONFIG_segment_definitions j = Inr d
           \<and> SEGMENTATION_CONFIG_segment_definitions j = Some d"
  using assms by (auto simp: subscript_def SEGMENTATION_CONFIG_segment_definitions_def)

lemma match_segment_definition_config:
  "\<exists>j d. match_segment_definition means SEGMENTATION_CONFIG_segment_definitions = Inr d
     \<and> SEGMENTATION_CONFIG_segment_definitions j = Some d"
proof -
  obtain j where j: "j \<in> {0, 1, 2, 3, 4}"
    "match_segment_definition means SEGMENTATION_CONFIG_segment_definitions
       = subscript SEGMENTATION_CONFIG_segment_definitions j"
    using match_segment_definition_key by blast
  from subscript_config[OF j(1)] j(2) show ?thesis by auto
qed

lemma segment_definition_range:
  assumes "SEGMENTATION_CONFIG_segment_definitions j = Some d"
  shows "- (25 / 10) \<le> def_elasticity d \<and> def_elasticity d \<le> - (2 / 10)"
  using assms
  by (auto simp: SEGMENTATION_CONFIG_segment_definitions_def split: if_splits)

lemma create_segment_profiles_config:
  assumes "\<forall>k p. profiles k = Some p \<longrightarrow>
             (\<exists>j d. SEGMENTATION_CONFIG_segment_definitions j = Some d
                    \<and> price_elasticity p = Some (def_elasticity d))"
  shows "\<exists>profiles'. create_segment_profiles means ids profiles = Inr profiles'
           \<and> (\<forall>k p. profiles' k = Some p \<longrightarrow>
                 (\<exists>j d. SEGMENTATION_CONFIG_segment_definitions j = Some d
                        \<and> price_elasticity p = Some (def_elasticity d)))"
  using assms
proof (induction ids arbitrary: profiles)
  case Nil
  then show ?case by simp
next
  case (Cons cluster_id ids)
  obtain j d where d: "match_segment_definition (means cluster_id) SEGMENTATION_CONFIG_segment_definitions = Inr d"
    "SEGMENTATION_CONFIG_segment_definitions j = Some d"
    using match_segment_definition_config by blast
  let ?p = "profiles(cluster_id \<mapsto>
               \<lparr>profile_name = def_name d, price_elasticity = Some (def_elasticity d),
                pricing_strategy = get_pricing_strategy d\<rparr>)"
  have inv: "\<forall>k p. ?p k = Some p \<longrightarrow>
             (\<exists>j d. SEGMENTATION_CONFIG_segment_definitions j = Some d
                    \<and> price_elasticity p = Some (def_elasticity d))"
    using Cons.prems d(2) by (auto split: if_splits)
  from Cons.IH[OF inv] show ?case by (simp only: create_segment_profiles.simps d(1) sum.case)
qed

lemma train_config:
  "\<exists>m. train (CustomerSegmentation_init n) fitted df = Inr m \<and> seg_is_fitted m
       \<and> (\<forall>k p. segment_profiles m k = Some p \<longrightarrow>
             (\<exists>j d. SEGMENTATION_CONFIG_segment_definitions j = Some d
                    \<and> price_elasticity p = Some (def_elasticity d)))"
proof (cases df)
  case None
  then show ?thesis by (simp add: train_def CustomerSegmentation_init_def)
next
  case (Some means)
  have "\<forall>k p. (Map.empty :: int \<rightharpoonup> segment_profile) k = Some p \<longrightarrow>
             (\<exists>j d. SEGMENTATION_CONFIG_segment_definitions j = Some d
                    \<and> price_elasticity p = Some (def_elasticity d))"
    by simp
  from create_segment_profiles_config[OF this, of means "map int [0 ..< n]"]
  obtain profiles' where p: "create_segment_profiles means (map int [0 ..< n]) Map.empty = Inr profiles'"
    "\<forall>k p. profiles' k = Some p \<longrightarrow>
             (\<exists>j d. SEGMENTATION_CONFIG_segment_definitions j = Some d
                    \<and> price_elasticity p = Some (def_elasticity d))"
    by blast
  show ?thesis using p by (simp add: train_def CustomerSegmentation_init_def Some)
qed

lemma estimate_price_elasticity_delegated:
  assumes "segmentation_model self = Some m" "seg_is_fitted m"
  shows "estimate_price_elasticity self f =
           Inr (case segment_profiles m (kmeans_predict m f) of
                  None \<Rightarrow> - 1
                | Some p \<Rightarrow> (case price_elasticity p of None \<Rightarrow> - 1 | Some v \<Rightarrow> v))"
  using assms
  by (simp add: estimate_price_elasticity_def segmentation_predict_single_def Let_def
      split: option.splits)

lemma estimate_price_elasticity_config_range:
  assumes "segmentation_model self = Some m" "seg_is_fitted m"
    and "\<forall>k p. segment_profiles m k = Some p \<longrightarrow>
             (\<exists>j d. SEGMENTATION_CONFIG_segment_definitions j = Some d
                    \<and> price_elasticity p = Some (def_elasticity d))"
  shows "\<exists>v. estimate_price_elasticity self f = Inr v \<and> - (25 / 10) \<le> v \<and> v \<le> - (2 / 10)"
proof (cases "segment_profiles m (kmeans_predict m f)")
  case None
  then show ?thesis
    by (simp add: estimate_price_elasticity_delegated[OF assms(1,2)])
next
  case (Some p)
  with assms(3) obtain j d where d: "SEGMENTATION_CONFIG_segment_definitions j = Some d"
    "price_elasticity p = Some (def_elasticity d)"
    by blast
  from segment_definition_range[OF d(1)] show ?thesis
    by (simp add: estimate_price_elasticity_delegated[OF assms(1,2)] Some d(2))
qed

text \<open>
  C6, as the code has it. With no fitted segmentation collaborator the elasticity is
  \<open>-2.0 + 0.7 * (nps / 10) + 0.5 * min (plan_price / 2000) 1 + 0.3 * min (usage / 500) 1\<close>
  clamped to [-2.5, -0.2] and then rounded to 2 decimal places, a value in [-2.5, -0.2].
  With a fitted collaborator it is the \<^verbatim>\<open>price_elasticity\<close> entry of the predicted
  segment's profile, -1.0 when the profile or the entry is missing. That value lies in
  [-2.5, -0.2] when the profiles carry elasticities of \<^verbatim>\<open>SEGMENTATION_CONFIG\<close>, as the
  profiles that \<^verbatim>\<open>train\<close> creates do, also after \<^verbatim>\<open>save\<close> and \<^verbatim>\<open>load\<close>.
\<close>

theorem estimate_price_elasticity_range:
  "((case segmentation_model self of None \<Rightarrow> True | Some m \<Rightarrow> \<not> seg_is_fitted m) \<longrightarrow>
      (\<exists>tie_up. estimate_price_elasticity self f =
         Inr (py_round tie_up (max (- (25 / 10)) (min (- (2 / 10))
                (- 2 + 7 / 10 * (get f ''nps_score'' 5 / 10)
                     + 5 / 10 * min (get f ''plan_price'' 1000 / 2000) 1
                     + 3 / 10 * min (get f ''avg_monthly_usage_gb'' 200 / 500) 1))) 2))
      \<and> (\<exists>v. estimate_price_elasticity self f = Inr v \<and> - (25 / 10) \<le> v \<and> v \<le> - (2 / 10)))
   \<and> (segmentation_model self = Some m \<and> seg_is_fitted m \<longrightarrow>
        estimate_price_elasticity self f =
          Inr (case segment_profiles m (kmeans_predict m f) of
                 None \<Rightarrow> - 1
               | Some p \<Rightarrow> (case price_elasticity p of None \<Rightarrow> - 1 | Some v \<Rightarrow> v)))
   \<and> (segmentation_model self = Some m \<and> seg_is_fitted m
        \<and> (\<forall>k p. segment_profiles m k = Some p \<longrightarrow>
              (\<exists>j d. SEGMENTATION_CONFIG_segment_definitions j = Some d
                     \<and> price_elasticity p = Some (def_elasticity d))) \<longrightarrow>
        (\<exists>v. estimate_price_elasticity self f = Inr v \<and> - (25 / 10) \<le> v \<and> v \<le> - (2 / 10)))
   \<and> (\<exists>m0. train (CustomerSegmentation_init n) fitted df = Inr m0 \<and> seg_is_fitted m0
          \<and> (\<forall>k p. segment_profiles m0 k = Some p \<longrightarrow>
                (\<exists>j d. SEGMENTATION_CONFIG_segment_definitions j = Some d
                       \<and> price_elasticity p = Some (def_elasticity d))))
   \<and> (seg_is_fitted m \<longrightarrow>
        (\<exists>file m1. segmentation_save m = Inr file
           \<and> segmentation_load m2 (Some file) = Inr m1
           \<and> seg_is_fitted m1 \<and> segment_profiles m1 = segment_profiles m
           \<and> kmeans_predict m1 = kmeans_predict m))"
proof (intro conjI impI)
  assume a: "case segmentation_model self of None \<Rightarrow> True | Some m \<Rightarrow> \<not> seg_is_fitted m"
  then have fb: "estimate_price_elasticity self f
      = Inr (elasticity_from_features (float_ties self) f)"
    by (simp add: estimate_price_elasticity_def split: option.splits)
  show "\<exists>tie_up. estimate_price_elasticity self f =
         Inr (py_round tie_up (max (- (25 / 10)) (min (- (2 / 10))
                (- 2 + 7 / 10 * (get f ''nps_score'' 5 / 10)
                     + 5 / 10 * min (get f ''plan_price'' 1000 / 2000) 1
                     + 3 / 10 * min (get f ''avg_monthly_usage_gb'' 200 / 500) 1))) 2)"
    unfolding fb elasticity_from_features_def Let_def
    by (rule exI) (simp add: mult.commute)
  show "\<exists>v. estimate_price_elasticity self f = Inr v \<and> - (25 / 10) \<le> v \<and> v \<le> - (2 / 10)"
    using elasticity_from_features_range[of "float_ties self" f] by (simp add: fb)
next
  assume "segmentation_model self = Some m \<and> seg_is_fitted m"
  then show "estimate_price_elasticity self f =
          Inr (case segment_profiles m (kmeans_predict m f) of
                 None \<Rightarrow> - 1
               | Some p \<Rightarrow> (case price_elasticity p of None \<Rightarrow> - 1 | Some v \<Rightarrow> v))"
    by (simp add: estimate_price_elasticity_delegated)
next
  assume "segmentation_model self = Some m \<and> seg_is_fitted m
        \<and> (\<forall>k p. segment_profiles m k = Some p \<longrightarrow>
              (\<exists>j d. SEGMENTATION_CONFIG_segment_definitions j = Some d
                     \<and> price_elasticity p = Some (def_elasticity d)))"
  then show "\<exists>v. estimate_price_elasticity self f = Inr v \<and> - (25 / 10) \<le> v \<and> v \<le> - (2 / 10)"
    using estimate_price_elasticity_config_range[of self m f] by blast
next
  show "\<exists>m0. train (CustomerSegmentation_init n) fitted df = Inr m0 \<and> seg_is_fitted m0
          \<and> (\<forall>k p. segment_profiles m0 k = Some p \<longrightarrow>
                (\<exists>j d. SEGMENTATION_CONFIG_segment_definitions j = Some d
                       \<and> price_elasticity p = Some (def_elasticity d)))"
    by (rule train_config)
next
  assume "seg_is_fitted m"
  then show "\<exists>file m1. segmentation_save m = Inr file
           \<and> segmentation_load m2 (Some file) = Inr m1
           \<and> seg_is_fitted m1 \<and> segment_profiles m1 = segment_profiles m
           \<and> kmeans_predict m1 = kmeans_predict m"
    by (simp add: segmentation_save_def segmentation_load_def)
qed

text \<open>
  The fallback at the fresh engine; a collaborator trained on five clusters of premium
  power users, attached as trained and attached after \<^verbatim>\<open>save\<close> and \<^verbatim>\<open>load\<close>.
\<close>

theorem estimate_price_elasticity_range_witness:
  "(case segmentation_model fresh_engine of None \<Rightarrow> True | Some m \<Rightarrow> \<not> seg_is_fitted m)
   \<and> (\<exists>v. estimate_price_elasticity fresh_engine Map.empty = Inr v
          \<and> - (25 / 10) \<le> v \<and> v \<le> - (2 / 10))
   \<and> (\<exists>m file m1.
          train (CustomerSegmentation_init 5) (\<lambda>_. 0) (Some (\<lambda>_. (2000, 500, 8))) = Inr m
        \<and> segmentation_save m = Inr file
        \<and> segmentation_load (CustomerSegmentation_init 5) (Some file) = Inr m1
        \<and> (\<exists>v. estimate_price_elasticity (set_models fresh_engine None (Some m)) Map.empty = Inr v
               \<and> - (25 / 10) \<le> v \<and> v \<le> - (2 / 10))
        \<and> (\<exists>v. estimate_price_elasticity (set_models fresh_engine None (Some m1)) Map.empty = Inr v
               \<and> - (25 / 10) \<le> v \<and> v \<le> - (2 / 10)))"
proof -
  have h: "case segmentation_model fresh_engine of None \<Rightarrow> True | Some m \<Rightarrow> \<not> seg_is_fitted m"
    by (simp add: fresh_engine_fields)
  from estimate_price_elasticity_range[where self = fresh_engine and f = Map.empty] h
  have a: "\<exists>v. estimate_price_elasticity fresh_engine Map.empty = Inr v
          \<and> - (25 / 10) \<le> v \<and> v \<le> - (2 / 10)"
    by blast
  from estimate_price_elasticity_range[where n = 5 and fitted = "\<lambda>_. 0"
      and df = "Some (\<lambda>_. (2000, 500, 8))"]
  obtain m where m:
    "train (CustomerSegmentation_init 5) (\<lambda>_. 0) (Some (\<lambda>_. (2000, 500, 8))) = Inr m"
    "seg_is_fitted m"
    "\<forall>k p. segment_profiles m k = Some p \<longrightarrow>
       (\<exists>j d. SEGMENTATION_CONFIG_segment_definitions j = Some d
              \<and> price_elasticity p = Some (def_elasticity d))"
    by blast
  from estimate_price_elasticity_range[where m = m and ?m2.0 = "CustomerSegmentation_init 5"] m(2)
  obtain saved m1 where l: "segmentation_save m = Inr saved"
    "segmentation_load (CustomerSegmentation_init 5) (Some saved) = Inr m1"
    "seg_is_fitted m1" "segment_profiles m1 = segment_profiles m"
    by blast
  have s: "segmentation_model (set_models fresh_engine None (Some m)) = Some m"
    "segmentation_model (set_models fresh_engine None (Some m1)) = Some m1"
    by (simp_all add: set_models_def)
  from estimate_price_elasticity_range[where self = "set_models fresh_engine None (Some m)"
      and f = Map.empty and m = m] s(1) m(2,3)
  have b: "\<exists>v. estimate_price_elasticity (set_models fresh_engine None (Some m)) Map.empty = Inr v
                 \<and> - (25 / 10) \<le> v \<and> v \<le> - (2 / 10)"
    by blast
  from m(3) l(4) have m1: "\<forall>k p. segment_profiles m1 k = Some p \<longrightarrow>
       (\<exists>j d. SEGMENTATION_CONFIG_segment_definitions j = Some d
              \<and> price_elasticity p = Some (def_elasticity d))"
    by simp
  from estimate_price_elasticity_range[where self = "set_models fresh_engine None (Some m1)"
      and f = Map.empty and m = m1] s(2) l(3) m1
  have c: "\<exists>v. estimate_price_elasticity (set_models fresh_engine None (Some m1)) Map.empty = Inr v
                 \<and> - (25 / 10) \<le> v \<and> v \<le> - (2 / 10)"
    by blast
  from h a m(1) l(1,2) b c show ?thesis by blast
qed

text \<open>
  C6 as stated fails twice. It leaves the rounding out: with a plan price of 999 and the
  other features absent the clamped sum is -1.28025 and the function returns -1.28. And
  the delegated path returns what the profile holds: a collaborator loaded from a file
  whose profile carries -3.0 makes the function return -3.0, below -2.5.
\<close>

theorem elasticity_rounded_and_unbounded:
  "estimate_price_elasticity fresh_engine [''plan_price'' \<mapsto> 999] = Inr (- (32 / 25))
   \<and> max (- (25 / 10)) (min (- (2 / 10))
        (- 2 + 7 / 10 * (get [''plan_price'' \<mapsto> 999] ''nps_score'' 5 / 10)
             + 5 / 10 * min (get [''plan_price'' \<mapsto> 999] ''plan_price'' 1000 / 2000) 1
             + 3 / 10 * min (get [''plan_price'' \<mapsto> 999] ''avg_monthly_usage_gb'' 200 / 500) 1))
       = - (5121 / 4000)
   \<and> - (32 / 25) \<noteq> (- (5121 / 4000) :: real)
   \<and> (case segmentation_load (CustomerSegmentation_init 5) (Some steep_segmentation_file) of
         Inl err \<Rightarrow> False
       | Inr m \<Rightarrow>
           seg_is_fitted m
         \<and> estimate_price_elasticity (set_models fresh_engine None (Some m)) Map.empty
             = Inr (- 3))
   \<and> (- 3 :: real) < - (25 / 10)"
proof -
  have a: "estimate_price_elasticity fresh_engine [''plan_price'' \<mapsto> 999] = Inr (- (32 / 25))"
    by (simp add: estimate_price_elasticity_def fresh_engine_fields elasticity_from_features_def
      get_def py_round_def round_nearest_def Let_def)
  have b: "max (- (25 / 10)) (min (- (2 / 10))
        (- 2 + 7 / 10 * (get [''plan_price'' \<mapsto> 999] ''nps_score'' 5 / 10)
             + 5 / 10 * min (get [''plan_price'' \<mapsto> 999] ''plan_price'' 1000 / 2000) 1
             + 3 / 10 * min (get [''plan_price'' \<mapsto> 999] ''avg_monthly_usage_gb'' 200 / 500) 1))
       = - (5121 / 4000)"
    by (simp add: get_def)
  have c: "case segmentation_load (CustomerSegmentation_init 5) (Some steep_segmentation_file) of
         Inl err \<Rightarrow> False
       | Inr m \<Rightarrow>
           seg_is_fitted m
         \<and> estimate_price_elasticity (set_models fresh_engine None (Some m)) Map.empty
             = Inr (- 3)"
    by (simp add: segmentation_load_def steep_segmentation_file_def set_models_def
        estimate_price_elasticity_def segmentation_predict_single_def Let_def)
  from a b c show ?thesis by simp
qed

section \<open>Return on investment\<close>

text \<open>
  C4, as the code has it. When the projected revenue saved is zero the projection raises
  \<^verbatim>\<open>ZeroDivisionError\<close>: nothing in the function or in the route that calls it catches the
  division, and the code has no domain error to report instead.
\<close>

theorem calculate_roi_projection_zero_revenue:
  assumes "of_int customers_saved * avg_revenue_per_user * of_int avg_lifetime_months = (0 :: real)"
  shows "calculate_roi_projection self customers_saved avg_revenue_per_user avg_lifetime_months
           implementation_cost = Inl ZeroDivisionError
         \<and> calculate_roi (Some self) customers_saved avg_revenue_per_user avg_lifetime_months
             implementation_cost = Inl ZeroDivisionError"
  using assms by (auto simp: calculate_roi_projection_def calculate_roi_def get_engine_def Let_def)

theorem calculate_roi_projection_zero_revenue_witness:
  "of_int 700 * 0 * of_int 24 = (0 :: real)
   \<and> calculate_roi_projection fresh_engine 700 0 24 1000000 = Inl ZeroDivisionError
   \<and> calculate_roi (Some fresh_engine) 700 0 24 1000000 = Inl ZeroDivisionError"
proof -
  have h: "of_int 700 * 0 * of_int 24 = (0 :: real)" by simp
  from calculate_roi_projection_zero_revenue[OF h, of fresh_engine 1000000] h
  show ?thesis by blast
qed

text \<open>
  C4 as stated fails: with no customer saved the call of the specification's own example
  raises the raw arithmetic error.
\<close>

theorem roi_projection_raises_zero_division:
  "calculate_roi_projection fresh_engine 0 500 24 1000000 = Inl ZeroDivisionError"
  by (simp add: calculate_roi_projection_def Let_def)

section \<open>Weights, results and history\<close>

lemma update_weights_store:
  "store (update_weights self a b g) =
     (store self)(weights self :=
        \<lparr>alpha = (case a of None \<Rightarrow> alpha (store self (weights self)) | Some x \<Rightarrow> x),
         beta = (case b of None \<Rightarrow> beta (store self (weights self)) | Some x \<Rightarrow> x),
         gamma = (case g of None \<Rightarrow> gamma (store self (weights self)) | Some x \<Rightarrow> x)\<rparr>)"
  by (cases a; cases b; cases g)
     (simp_all add: update_weights_def set_weights_entry_def fun_eq_iff)

lemma update_weights_frame:
  "weights (update_weights self a b g) = weights self"
  "constraints (update_weights self a b g) = constraints self"
  "demand_factors (update_weights self a b g) = demand_factors self"
  "pricing_history (update_weights self a b g) = pricing_history self"
  "churn_model (update_weights self a b g) = churn_model self"
  "segmentation_model (update_weights self a b g) = segmentation_model self"
  by (cases a; cases b; cases g; simp add: update_weights_def set_weights_entry_def)+

text \<open>
  C9, as the code has it. \<^verbatim>\<open>update_weights\<close> stores each value it is given, whatever the
  value, and keeps the weight of each argument that is \<^verbatim>\<open>None\<close>. It writes the engine's
  weights dictionary and nothing else: the constraints, the demand-factor table and the
  history list with the entries it holds are as before, and so is every other object of
  the store.
\<close>

theorem update_weights_partial:
  "alpha (store (update_weights self a b g) (weights (update_weights self a b g)))
     = (case a of None \<Rightarrow> alpha (store self (weights self)) | Some x \<Rightarrow> x)
   \<and> beta (store (update_weights self a b g) (weights (update_weights self a b g)))
     = (case b of None \<Rightarrow> beta (store self (weights self)) | Some x \<Rightarrow> x)
   \<and> gamma (store (update_weights self a b g) (weights (update_weights self a b g)))
     = (case g of None \<Rightarrow> gamma (store self (weights self)) | Some x \<Rightarrow> x)
   \<and> store (update_weights self a b g)
     = (store self)(weights self := store (update_weights self a b g) (weights self))
   \<and> weights (update_weights self a b g) = weights self
   \<and> constraints (update_weights self a b g) = constraints self
   \<and> demand_factors (update_weights self a b g) = demand_factors self
   \<and> pricing_history (update_weights self a b g) = pricing_history self"
  by (simp add: update_weights_frame update_weights_store)

text \<open>Only beta set, to a value out of any sensible range.\<close>

theorem update_weights_partial_witness:
  "alpha (store (update_weights fresh_engine None (Some (- 5)) None)
            (weights (update_weights fresh_engine None (Some (- 5)) None))) = 15 / 100
   \<and> beta (store (update_weights fresh_engine None (Some (- 5)) None)
            (weights (update_weights fresh_engine None (Some (- 5)) None))) = - 5
   \<and> gamma (store (update_weights fresh_engine None (Some (- 5)) None)
            (weights (update_weights fresh_engine None (Some (- 5)) None))) = 20 / 100
   \<and> constraints (update_weights fresh_engine None (Some (- 5)) None) = PRICING_CONFIG_constraints
   \<and> pricing_history (update_weights fresh_engine None (Some (- 5)) None) = []"
proof -
  let ?u = "update_weights fresh_engine None (Some (- 5)) None"
  from update_weights_partial[of fresh_engine None "Some (- 5)" None, simplified option.case]
  have "alpha (store ?u (weights ?u)) = alpha (store fresh_engine (weights fresh_engine))"
    "beta (store ?u (weights ?u)) = - 5"
    "gamma (store ?u (weights ?u)) = gamma (store fresh_engine (weights fresh_engine))"
    "constraints ?u = constraints fresh_engine"
    "pricing_history ?u = pricing_history fresh_engine"
    by blast+
  then show ?thesis by (simp add: fresh_engine_fields PRICING_CONFIG_weights_def)
qed

lemma fresh_engine_price_999:
  "\<exists>r self1. calculate_dynamic_price fresh_engine 999 Map.empty (Some peak_weekday) = Inr (r, self1)
     \<and> result_weights r = 0 \<and> weights self1 = 0 \<and> store self1 = (\<lambda>_. PRICING_CONFIG_weights)
     \<and> pricing_history self1 = [r]"
proof -
  have bp: "(999 :: real) \<noteq> 0" by simp
  have st: "store fresh_engine = (\<lambda>_. PRICING_CONFIG_weights)"
    by (simp add: fresh_engine_def DynamicPricingEngine_init_def)
  from calculate_dynamic_price_result[OF bp fresh_engine_elasticity_default
      fresh_engine_churn_default refl refl refl refl, of "Some peak_weekday"]
  show ?thesis by (auto simp: fresh_engine_fields st)
qed

text \<open>
  C5. A result holds the engine's weights dictionary itself, so a later
  \<^verbatim>\<open>update_weights\<close> changes the weights a result returned earlier shows: the fresh
  engine prices at 999 (default features, Monday 8 PM), the result shows alpha = 0.15,
  and after \<^verbatim>\<open>update_weights(alpha=0.9)\<close> the same result shows alpha = 0.9.
\<close>

theorem update_weights_rewrites_recorded_weights:
  "(case calculate_dynamic_price fresh_engine 999 Map.empty (Some peak_weekday) of
      Inl err \<Rightarrow> False
    | Inr (r, self1) \<Rightarrow>
        read_result_weights self1 r = \<lparr>alpha = 15 / 100, beta = 10 / 100, gamma = 20 / 100\<rparr>
      \<and> read_result_weights (update_weights self1 (Some (9 / 10)) None None) r
          = \<lparr>alpha = 9 / 10, beta = 10 / 100, gamma = 20 / 100\<rparr>)"
proof -
  obtain r self1 where r:
    "calculate_dynamic_price fresh_engine 999 Map.empty (Some peak_weekday) = Inr (r, self1)"
    "result_weights r = 0" "weights self1 = 0" "store self1 = (\<lambda>_. PRICING_CONFIG_weights)"
    using fresh_engine_price_999 by blast
  show ?thesis
    by (simp add: r read_result_weights_def update_weights_store PRICING_CONFIG_weights_def)
qed

text \<open>
  C9 as stated fails where it says the pricing history is unchanged: the entries of the
  history share the engine's weights dictionary, so after one price calculation
  \<^verbatim>\<open>update_weights(beta=0.5)\<close> changes the weights the history shows.
\<close>

theorem update_weights_changes_history_view:
  "(case calculate_dynamic_price fresh_engine 999 Map.empty (Some peak_weekday) of
      Inl err \<Rightarrow> False
    | Inr (r, self1) \<Rightarrow>
        map (read_result_weights self1) (pricing_history self1)
          = [\<lparr>alpha = 15 / 100, beta = 10 / 100, gamma = 20 / 100\<rparr>]
      \<and> map (read_result_weights (update_weights self1 None (Some (1 / 2)) None))
            (pricing_history (update_weights self1 None (Some (1 / 2)) None))
          = [\<lparr>alpha = 15 / 100, beta = 1 / 2, gamma = 20 / 100\<rparr>])"
proof -
  obtain r self1 where r:
    "calculate_dynamic_price fresh_engine 999 Map.empty (Some peak_weekday) = Inr (r, self1)"
    "result_weights r = 0" "weights self1 = 0" "store self1 = (\<lambda>_. PRICING_CONFIG_weights)"
    "pricing_history self1 = [r]"
    using fresh_engine_price_999 by blast
  show ?thesis
    by (simp add: r read_result_weights_def update_weights_store update_weights_frame
        PRICING_CONFIG_weights_def)
qed

section \<open>Revenue over a list of customers\<close>

text \<open>The loop of \<^verbatim>\<open>optimize_revenue\<close> is the sequence of single calls, with its sums.\<close>

lemma optimize_revenue_loop_price_each:
  "optimize_revenue_loop self xs results total_base total_dynamic =
     (case price_each self xs of
        Inl err \<Rightarrow> Inl err
      | Inr (rs, self') \<Rightarrow>
          Inr (results @ rs, total_base + sum_list (map snd xs),
               total_dynamic + sum_list (map dynamic_price rs), self'))"
proof (induction xs arbitrary: self results total_base total_dynamic)
  case Nil
  then show ?case by simp
next
  case (Cons x xs)
  obtain customer_features bp where x: "x = (customer_features, bp)" by (cases x)
  show ?case
  proof (cases "calculate_dynamic_price self bp customer_features None")
    case (Inl err)
    then show ?thesis by (simp add: x)
  next
    case (Inr p)
    obtain r self1 where p: "p = (r, self1)" by (cases p)
    show ?thesis
      by (cases "price_each self1 xs")
         (auto simp: x Inr p Cons.IH add.assoc)
  qed
qed

lemma price_each_returns:
  assumes "\<forall>x \<in> set xs. snd x \<noteq> 0"
  shows "\<exists>rs self'. price_each self xs = Inr (rs, self')
           \<and> map base_price rs = map snd xs
           \<and> pricing_history self' = pricing_history self @ rs"
  using assms
proof (induction xs arbitrary: self)
  case Nil
  then show ?case by simp
next
  case (Cons x xs)
  obtain customer_features bp where x: "x = (customer_features, bp)" by (cases x)
  from Cons.prems x have bp: "bp \<noteq> 0" by simp
  obtain e where e: "estimate_price_elasticity self customer_features = Inr e"
    using estimate_price_elasticity_Inr by blast
  obtain c where c: "calculate_churn_risk self customer_features = Inr c"
    using calculate_churn_risk_Inr by blast
  from calculate_dynamic_price_result[OF bp e c refl refl refl refl, of None]
  obtain r self1 where r:
    "calculate_dynamic_price self bp customer_features None = Inr (r, self1)"
    "base_price r = bp"
    "self1 = self\<lparr>now_calls := Suc (Suc (now_calls self)),
                   pricing_history := pricing_history self @ [r]\<rparr>"
    by auto
  have h1: "pricing_history self1 = pricing_history self @ [r]" by (simp add: r(3))
  from Cons.prems have "\<forall>x \<in> set xs. snd x \<noteq> 0" by simp
  from Cons.IH[OF this, of self1]
  obtain rs self' where rs: "price_each self1 xs = Inr (rs, self')"
    "map base_price rs = map snd xs"
    "pricing_history self' = pricing_history self1 @ rs"
    by blast
  show ?case
    apply (rule exI[of _ "r # rs"], rule exI[of _ self'])
    apply (simp add: x r(1,2) rs h1)
    done
qed

text \<open>
  C10, as the code has it. On two empty lists \<^verbatim>\<open>optimize_revenue\<close> raises
  \<^verbatim>\<open>ZeroDivisionError\<close>: the total base revenue it divides by is 0. On non-empty lists
  of equal length it returns when no base price is 0 and the base prices do not sum to 0
  (so whenever every base price is positive). Its individual results are then the results
  of the single calls of \<^verbatim>\<open>calculate_dynamic_price\<close>, one per customer with that
  customer's features and base price, in order, each on the engine the call before has
  left; it leaves the engine those calls leave, reports the length of the customer list,
  and its total dynamic revenue is the sum of the dynamic prices of those results, rounded
  to 2 places.
\<close>

theorem optimize_revenue_returns:
  "optimize_revenue self [] [] = Inl ZeroDivisionError
   \<and> (customers \<noteq> [] \<and> length customers = length base_prices
        \<and> (\<forall>bp \<in> set base_prices. bp \<noteq> 0) \<and> sum_list base_prices \<noteq> 0 \<longrightarrow>
      (\<exists>res rs self' tie_up.
          optimize_revenue self customers base_prices = Inr (res, self')
        \<and> price_each self (zip customers base_prices) = Inr (rs, self')
        \<and> individual_results res = rs
        \<and> length rs = length customers
        \<and> map base_price rs = base_prices
        \<and> pricing_history self' = pricing_history self @ rs
        \<and> customers_processed res = length customers
        \<and> total_dynamic_revenue res = py_round tie_up (sum_list (map dynamic_price rs)) 2))"
proof (intro conjI impI)
  show "optimize_revenue self [] [] = Inl ZeroDivisionError"
    by (simp add: optimize_revenue_def)
next
  assume a: "customers \<noteq> [] \<and> length customers = length base_prices
        \<and> (\<forall>bp \<in> set base_prices. bp \<noteq> 0) \<and> sum_list base_prices \<noteq> 0"
  let ?xs = "zip customers base_prices"
  from a have sn: "map snd ?xs = base_prices" by simp
  have nz: "\<forall>x \<in> set ?xs. snd x \<noteq> 0"
    using a by (auto dest: set_zip_rightD)
  from price_each_returns[OF nz, of self]
  obtain rs self' where rs: "price_each self ?xs = Inr (rs, self')"
    "map base_price rs = base_prices"
    "pricing_history self' = pricing_history self @ rs"
    by (auto simp: sn)
  have loop: "optimize_revenue_loop self ?xs [] 0 0
       = Inr (rs, sum_list base_prices, sum_list (map dynamic_price rs), self')"
    by (simp add: optimize_revenue_loop_price_each rs(1) sn)
  have len: "length rs = length customers"
    using rs(2) a by (metis length_map)
  from a have "length customers \<noteq> 0" by auto
  with len have ne: "length rs \<noteq> 0" by simp
  obtain res where res: "optimize_revenue self customers base_prices = Inr (res, self')"
    "individual_results res = rs" "customers_processed res = length customers"
    "total_dynamic_revenue res =
       py_round (float_ties self' ''total_dynamic_revenue''
                   (map base_price rs @ map dynamic_price rs @ map price_change_percent rs))
         (sum_list (map dynamic_price rs)) 2"
    using a ne by (simp add: optimize_revenue_def loop Let_def)
  show "\<exists>res rs self' tie_up.
          optimize_revenue self customers base_prices = Inr (res, self')
        \<and> price_each self (zip customers base_prices) = Inr (rs, self')
        \<and> individual_results res = rs
        \<and> length rs = length customers
        \<and> map base_price rs = base_prices
        \<and> pricing_history self' = pricing_history self @ rs
        \<and> customers_processed res = length customers
        \<and> total_dynamic_revenue res = py_round tie_up (sum_list (map dynamic_price rs)) 2"
    using res rs len by blast
qed

lemma demand_peak_now:
  assumes "demand_factors s = PRICING_CONFIG_demand_factors" "clock s = (\<lambda>_. peak_weekday)"
  shows "fst (calculate_demand_factor s None) = 3 / 20"
  using assms
  by (simp add: calculate_demand_factor_def datetime_now_def PRICING_CONFIG_demand_factors_def
      peak_weekday_def weekday_def py_round_def round_nearest_def Let_def)

lemma fresh_engine_elasticity_nps10:
  "estimate_price_elasticity fresh_engine [''nps_score'' \<mapsto> 10] = Inr (- (93 / 100))"
  by (simp add: estimate_price_elasticity_def fresh_engine_fields elasticity_from_features_def
      get_def py_round_def round_nearest_def Let_def)

lemma fresh_engine_churn_nps10:
  "calculate_churn_risk fresh_engine [''nps_score'' \<mapsto> 10] = Inr 0"
  by (simp add: calculate_churn_risk_def fresh_engine_fields churn_risk_from_features_def get_def
      normalize_value_def py_round_def round_nearest_def Let_def)

lemma fresh_engine_adjustment_nps10:
  "apply_constraints PRICING_CONFIG_constraints
     (combined_adjustment PRICING_CONFIG_weights (3 / 20) (elasticity_to_factor (- (93 / 100))) 0)
     = - (17 / 1840)"
  by (simp add: apply_constraints_def combined_adjustment_def elasticity_to_factor_def
      PRICING_CONFIG_constraints_def PRICING_CONFIG_weights_def Let_def)

text \<open>
  Two customers on the fresh engine: default features at a base price of 999, and an NPS
  score of 10 at a base price of 500. The single calls price them at 954.59 and 495.38.
\<close>

lemma fresh_engine_price_each:
  "\<exists>r1 r2 self'.
      price_each fresh_engine [(Map.empty, 999), ([''nps_score'' \<mapsto> 10], 500)]
        = Inr ([r1, r2], self')
    \<and> dynamic_price r1 = 95459 / 100 \<and> dynamic_price r2 = 49538 / 100"
proof -
  have bp1: "(999 :: real) \<noteq> 0" by simp
  have d1: "3 / 20 = fst (calculate_demand_factor fresh_engine None)"
    by (simp add: demand_peak_now fresh_engine_fields)
  have a1: "- (409 / 9200) = apply_constraints (constraints fresh_engine)
       (combined_adjustment (store fresh_engine (weights fresh_engine)) (3 / 20)
          (elasticity_to_factor (- (32 / 25))) (1 / 10))"
    by (simp only: fresh_engine_fields fresh_engine_adjustment_default)
  have p1: "(8782209 / 9200 :: real) = max (999 * (5 / 10)) (999 * (1 + - (409 / 9200)))"
    by simp
  have z1: "py_round tie_up (8782209 / 9200) 2 = 95459 / 100" for tie_up
    by (simp add: py_round_def round_nearest_def Let_def)
  from calculate_dynamic_price_result[OF bp1 fresh_engine_elasticity_default
      fresh_engine_churn_default d1 a1 p1 refl]
  obtain r1 s1 where r1: "calculate_dynamic_price fresh_engine 999 Map.empty None = Inr (r1, s1)"
    "dynamic_price r1 = 95459 / 100"
    "s1 = fresh_engine\<lparr>now_calls := Suc (Suc (now_calls fresh_engine)),
                        pricing_history := pricing_history fresh_engine @ [r1]\<rparr>"
    unfolding z1 by auto
  have f1: "store s1 r = PRICING_CONFIG_weights" "weights s1 = 0"
    "constraints s1 = PRICING_CONFIG_constraints"
    "demand_factors s1 = PRICING_CONFIG_demand_factors"
    "clock s1 = (\<lambda>_. peak_weekday)" for r
    by (simp_all add: r1(3) fresh_engine_fields)
  have e2: "estimate_price_elasticity s1 [''nps_score'' \<mapsto> 10] = Inr (- (93 / 100))"
    by (simp add: r1(3) fresh_engine_elasticity_nps10)
  have c2: "calculate_churn_risk s1 [''nps_score'' \<mapsto> 10] = Inr 0"
    by (simp add: r1(3) fresh_engine_churn_nps10)
  have bp2: "(500 :: real) \<noteq> 0" by simp
  have d2: "3 / 20 = fst (calculate_demand_factor s1 None)"
    by (simp add: demand_peak_now f1)
  have a2: "- (17 / 1840) = apply_constraints (constraints s1)
       (combined_adjustment (store s1 (weights s1)) (3 / 20)
          (elasticity_to_factor (- (93 / 100))) 0)"
    by (simp only: f1 fresh_engine_adjustment_nps10)
  have p2: "(45575 / 92 :: real) = max (500 * (5 / 10)) (500 * (1 + - (17 / 1840)))"
    by simp
  have z2: "py_round tie_up (45575 / 92) 2 = 49538 / 100" for tie_up
    by (simp add: py_round_def round_nearest_def Let_def)
  from calculate_dynamic_price_result[OF bp2 e2 c2 d2 a2 p2 refl]
  obtain r2 s2 where r2:
    "calculate_dynamic_price s1 500 [''nps_score'' \<mapsto> 10] None = Inr (r2, s2)"
    "dynamic_price r2 = 49538 / 100"
    unfolding z2 by auto
  have "price_each fresh_engine [(Map.empty, 999), ([''nps_score'' \<mapsto> 10], 500)]
          = Inr ([r1, r2], s2)"
    by (simp add: r1(1) r2(1))
  with r1(2) r2(2) show ?thesis by blast
qed

theorem optimize_revenue_returns_witness:
  "[Map.empty, [''nps_score'' \<mapsto> 10 :: real]] \<noteq> []
   \<and> length [Map.empty, [''nps_score'' \<mapsto> 10 :: real]] = length [999, 500 :: real]
   \<and> (999 :: real) \<noteq> 0 \<and> (500 :: real) \<noteq> 0 \<and> sum_list [999, 500 :: real] \<noteq> 0
   \<and> (\<exists>res self'.
          optimize_revenue fresh_engine [Map.empty, [''nps_score'' \<mapsto> 10]] [999, 500]
            = Inr (res, self')
        \<and> customers_processed res = 2
        \<and> map dynamic_price (individual_results res) = [95459 / 100, 49538 / 100]
        \<and> total_dynamic_revenue res = 144997 / 100)"
proof -
  let ?cs = "[Map.empty, [''nps_score'' \<mapsto> 10 :: real]]"
  have h: "?cs \<noteq> [] \<and> length ?cs = length [999, 500 :: real]
        \<and> (\<forall>bp \<in> set [999, 500 :: real]. bp \<noteq> 0) \<and> sum_list [999, 500 :: real] \<noteq> 0"
    by simp
  from optimize_revenue_returns[of fresh_engine ?cs "[999, 500]"] h
  obtain res rs self' tie_up where o:
    "optimize_revenue fresh_engine ?cs [999, 500] = Inr (res, self')"
    "price_each fresh_engine (zip ?cs [999, 500]) = Inr (rs, self')"
    "individual_results res = rs"
    "customers_processed res = length ?cs"
    "total_dynamic_revenue res = py_round tie_up (sum_list (map dynamic_price rs)) 2"
    by blast
  obtain r1 r2 s2 where p:
    "price_each fresh_engine [(Map.empty, 999), ([''nps_score'' \<mapsto> 10], 500)] = Inr ([r1, r2], s2)"
    "dynamic_price r1 = 95459 / 100" "dynamic_price r2 = 49538 / 100"
    using fresh_engine_price_each by blast
  from o(2) p(1) have rs: "rs = [r1, r2]" by simp
  have z: "py_round tie_up (144997 / 100) 2 = 144997 / 100"
    by (simp add: py_round_def round_nearest_def Let_def)
  have t: "total_dynamic_revenue res = 144997 / 100"
    using o(5) by (simp add: rs p(2,3) z)
  have m: "map dynamic_price (individual_results res) = [95459 / 100, 49538 / 100]"
    by (simp add: o(3) rs p(2,3))
  from o(1) o(4) t m have "\<exists>res self'.
          optimize_revenue fresh_engine ?cs [999, 500] = Inr (res, self')
        \<and> customers_processed res = 2
        \<and> map dynamic_price (individual_results res) = [95459 / 100, 49538 / 100]
        \<and> total_dynamic_revenue res = 144997 / 100"
    by auto
  then show ?thesis by simp
qed

text \<open>
  C10 as stated fails for a base price of 0: the price calculation of that customer
  divides by the base price.
\<close>

theorem optimize_revenue_zero_base_price:
  "optimize_revenue fresh_engine [Map.empty] [0] = Inl ZeroDivisionError
   \<and> [Map.empty :: features] \<noteq> [] \<and> length [Map.empty :: features] = length [0 :: real]"
  by (simp add: optimize_revenue_def calculate_dynamic_price_zero)

end
